theory Spec2Isabelle
  imports Complex_Main "HOL-Library.Char_ord" "HOL-Library.List_Lexorder"
begin

section \<open>Numbers, rounding and time\<close>

text \<open>
  The analytics layer computes on pandas/numpy float64 values. They are modelled as
  real numbers extended by the three special values of IEEE arithmetic, because the
  source relies on them: a pandas column division by a zero capacity yields an infinity
  or NaN instead of raising, and the mean of an empty selection is NaN. Binary rounding
  error and the sign of zero are not modelled.
\<close>

datatype fnum = Fin real | PosInf | NegInf | NaN

fun fadd :: "fnum \<Rightarrow> fnum \<Rightarrow> fnum" where
  "fadd NaN _ = NaN"
| "fadd _ NaN = NaN"
| "fadd (Fin a) (Fin b) = Fin (a + b)"
| "fadd PosInf NegInf = NaN"
| "fadd NegInf PosInf = NaN"
| "fadd PosInf _ = PosInf"
| "fadd _ PosInf = PosInf"
| "fadd NegInf _ = NegInf"
| "fadd _ NegInf = NegInf"

fun fneg :: "fnum \<Rightarrow> fnum" where
  "fneg (Fin a) = Fin (- a)"
| "fneg PosInf = NegInf"
| "fneg NegInf = PosInf"
| "fneg NaN = NaN"

definition fsub :: "fnum \<Rightarrow> fnum \<Rightarrow> fnum" where
  "fsub a b = fadd a (fneg b)"

fun fmul :: "fnum \<Rightarrow> fnum \<Rightarrow> fnum" where
  "fmul NaN _ = NaN"
| "fmul _ NaN = NaN"
| "fmul (Fin a) (Fin b) = Fin (a * b)"
| "fmul (Fin a) PosInf = (if a = 0 then NaN else if 0 < a then PosInf else NegInf)"
| "fmul (Fin a) NegInf = (if a = 0 then NaN else if 0 < a then NegInf else PosInf)"
| "fmul PosInf (Fin b) = (if b = 0 then NaN else if 0 < b then PosInf else NegInf)"
| "fmul NegInf (Fin b) = (if b = 0 then NaN else if 0 < b then NegInf else PosInf)"
| "fmul PosInf PosInf = PosInf"
| "fmul NegInf NegInf = PosInf"
| "fmul PosInf NegInf = NegInf"
| "fmul NegInf PosInf = NegInf"

fun fdiv :: "fnum \<Rightarrow> fnum \<Rightarrow> fnum" where
  "fdiv NaN _ = NaN"
| "fdiv _ NaN = NaN"
| "fdiv (Fin a) (Fin b) =
     (if b = 0 then (if a = 0 then NaN else if 0 < a then PosInf else NegInf)
      else Fin (a / b))"
| "fdiv (Fin a) PosInf = Fin 0"
| "fdiv (Fin a) NegInf = Fin 0"
| "fdiv PosInf (Fin b) = (if 0 \<le> b then PosInf else NegInf)"
| "fdiv NegInf (Fin b) = (if 0 \<le> b then NegInf else PosInf)"
| "fdiv PosInf _ = NaN"
| "fdiv NegInf _ = NaN"

text \<open>Comparisons: every comparison with NaN is false.\<close>

fun flt :: "fnum \<Rightarrow> fnum \<Rightarrow> bool" where
  "flt NaN _ = False"
| "flt _ NaN = False"
| "flt (Fin a) (Fin b) = (a < b)"
| "flt _ NegInf = False"
| "flt PosInf _ = False"
| "flt NegInf _ = True"
| "flt (Fin a) PosInf = True"

fun fle :: "fnum \<Rightarrow> fnum \<Rightarrow> bool" where
  "fle NaN _ = False"
| "fle _ NaN = False"
| "fle (Fin a) (Fin b) = (a \<le> b)"
| "fle NegInf _ = True"
| "fle _ PosInf = True"
| "fle _ NegInf = False"
| "fle PosInf _ = False"

definition fgt :: "fnum \<Rightarrow> fnum \<Rightarrow> bool" where
  "fgt a b = flt b a"

definition fge :: "fnum \<Rightarrow> fnum \<Rightarrow> bool" where
  "fge a b = fle b a"

text \<open>
  \<open>round(x, d)\<close> of Python and \<open>Series.round(d)\<close> of pandas: to \<open>d\<close> decimal places,
  a tie going to the even neighbour.
\<close>

definition round_half_even :: "real \<Rightarrow> int" where
  "round_half_even x =
     (let f = \<lfloor>x\<rfloor>; r = x - of_int f
      in if r < 1 / 2 then f
         else if 1 / 2 < r then f + 1
         else if even f then f else f + 1)"

definition round_to :: "nat \<Rightarrow> real \<Rightarrow> real" where
  "round_to d x = of_int (round_half_even (x * 10 ^ d)) / 10 ^ d"

fun fround :: "nat \<Rightarrow> fnum \<Rightarrow> fnum" where
  "fround d (Fin x) = Fin (round_to d x)"
| "fround d v = v"

text \<open>
  A \<open>datetime\<close> is a count of microseconds since the epoch; \<open>timedelta(days=n)\<close> is
  \<open>n\<close> days of microseconds. \<open>datetime.now()\<close> is read several times in one call:
  a call receives the clock as the sequence of its readings, \<open>clk i\<close> being the
  \<open>i\<close>-th reading the call makes.
\<close>

type_synonym datetime = int

type_synonym clock = "nat \<Rightarrow> datetime"

definition timedelta_days :: "int \<Rightarrow> int" where
  "timedelta_days n = n * 86400000000"

text \<open>\<open>str(n)\<close> of a natural number, as the f-strings of the source print it.\<close>

function str_nat :: "nat \<Rightarrow> string" where
  "str_nat n =
     (if n < 10 then [''0123456789'' ! n]
      else str_nat (n div 10) @ [''0123456789'' ! (n mod 10)])"
  by pat_completeness auto
termination
  by (relation "measure id") auto

declare str_nat.simps [simp del]

section \<open>Configuration (\<open>ml/analytics/config.py\<close>)\<close>

definition STORAGE_CRITICAL_HIGH :: nat where "STORAGE_CRITICAL_HIGH = 90"
definition STORAGE_CRITICAL_LOW :: nat where "STORAGE_CRITICAL_LOW = 10"
definition STORAGE_OPTIMAL_MIN :: nat where "STORAGE_OPTIMAL_MIN = 40"
definition STORAGE_OPTIMAL_MAX :: nat where "STORAGE_OPTIMAL_MAX = 80"

text \<open>\<open>DECIMAL_PLACES\<close>: the number of decimals per metric class.\<close>

definition DP_price :: nat where "DP_price = 2"
definition DP_quantity :: nat where "DP_quantity = 2"
definition DP_percentage :: nat where "DP_percentage = 1"
definition DP_utilization :: nat where "DP_utilization = 1"

section \<open>Tables read by the analytics functions\<close>

text \<open>
  The loaders return the whole file with the date column parsed. The analytics functions
  are modelled on tables whose cells are all present (no missing value), with the
  columns of the data model; a row is a record of the columns the functions read.
\<close>

record storage_row =
  s_date :: datetime
  warehouse_id :: string
  s_region :: string
  quantity_stored_tons :: real
  capacity_tons :: real

text \<open>
  \<open>storage_df.sort_values('date').groupby('warehouse_id').last()\<close>: the rows in date
  order (rows of equal date keep their file order), one group per warehouse id, the
  groups in ascending order of the id, and of each group its last row.
\<close>

definition latest_per_warehouse :: "storage_row list \<Rightarrow> storage_row list" where
  "latest_per_warehouse df =
     (let sorted_df = sort_key s_date df
      in map (\<lambda>k. last (filter (\<lambda>r. warehouse_id r = k) sorted_df))
           (sort (remdups (map warehouse_id sorted_df))))"

section \<open>Function 4: storage status\<close>

record warehouse_entry =
  we_warehouse_id :: string
  we_region :: string
  we_quantity_stored_tons :: real
  we_capacity_tons :: real
  we_utilization_percent :: fnum

record alert =
  alert_type :: string
  severity :: string
  message :: string
  warehouses :: "string list"

record storage_totals =
  st_total_stored_tons :: real
  st_total_capacity_tons :: real
  st_utilization_percent :: real
  st_active_warehouses :: nat

record utilization_categories =
  optimal :: nat
  overstocked :: nat
  understocked :: nat

text \<open>
  The \<open>warehouse_status\<close> entry of the result: the whole list when no warehouse is
  given, the first record of the list when one is given, \<open>None\<close> when that list is empty.
\<close>

datatype warehouse_status = Status_List "warehouse_entry list"
  | Status_One warehouse_entry | Status_None

record storage_status =
  ss_warehouse :: string
  ss_national_summary :: storage_totals
  ss_utilization_categories :: utilization_categories
  ss_warehouse_status :: warehouse_status
  ss_alerts :: "alert list"
  ss_generated_at :: datetime

text \<open>
  Python truth of the optional string argument (\<open>if warehouse:\<close>): \<open>None\<close> and the
  empty string are false.
\<close>

fun truthy :: "string option \<Rightarrow> bool" where
  "truthy None = False"
| "truthy (Some s) = (s \<noteq> [])"

definition with_utilization :: "storage_row \<Rightarrow> warehouse_entry" where
  "with_utilization r =
     \<lparr> we_warehouse_id = warehouse_id r,
       we_region = s_region r,
       we_quantity_stored_tons = quantity_stored_tons r,
       we_capacity_tons = capacity_tons r,
       we_utilization_percent =
         fround DP_utilization
           (fmul (fdiv (Fin (quantity_stored_tons r)) (Fin (capacity_tons r))) (Fin 100)) \<rparr>"

definition get_storage_status :: "string option \<Rightarrow> storage_row list \<Rightarrow> clock \<Rightarrow> storage_status" where
  "get_storage_status warehouse storage_df clk =
     (let latest0 = latest_per_warehouse storage_df;
          latest1 = (if truthy warehouse
                     then filter (\<lambda>r. Some (warehouse_id r) = warehouse) latest0
                     else latest0);
          latest = map with_utilization latest1;
          total_stored = sum_list (map we_quantity_stored_tons latest);
          total_capacity = sum_list (map we_capacity_tons latest);
          national_utilization =
            (if 0 < total_capacity then total_stored / total_capacity * 100 else 0);
          over = filter (\<lambda>e. fgt (we_utilization_percent e) (Fin (real STORAGE_CRITICAL_HIGH))) latest;
          under = filter (\<lambda>e. flt (we_utilization_percent e) (Fin (real STORAGE_CRITICAL_LOW))) latest;
          opt = filter (\<lambda>e. fge (we_utilization_percent e) (Fin (real STORAGE_OPTIMAL_MIN))
                           \<and> fle (we_utilization_percent e) (Fin (real STORAGE_OPTIMAL_MAX))) latest;
          alerts1 =
            (if 0 < length over
             then [\<lparr> alert_type = ''overstocked'', severity = ''high'',
                     message = str_nat (length over) @ '' warehouse(s) over ''
                               @ str_nat STORAGE_CRITICAL_HIGH @ ''% capacity'',
                     warehouses = map we_warehouse_id over \<rparr>]
             else []);
          alerts2 =
            (if 0 < length under
             then [\<lparr> alert_type = ''understocked'', severity = ''medium'',
                     message = str_nat (length under) @ '' warehouse(s) under ''
                               @ str_nat STORAGE_CRITICAL_LOW @ ''% capacity'',
                     warehouses = map we_warehouse_id under \<rparr>]
             else [])
      in \<lparr> ss_warehouse =
             (case warehouse of Some w \<Rightarrow> (if w \<noteq> [] then w else ''All Warehouses'')
              | None \<Rightarrow> ''All Warehouses''),
           ss_national_summary =
             \<lparr> st_total_stored_tons = round_to DP_quantity total_stored,
               st_total_capacity_tons = round_to DP_quantity total_capacity,
               st_utilization_percent = round_to DP_utilization national_utilization,
               st_active_warehouses = length latest \<rparr>,
           ss_utilization_categories =
             \<lparr> optimal = length opt, overstocked = length over, understocked = length under \<rparr>,
           ss_warehouse_status =
             (if \<not> truthy warehouse then Status_List latest
              else if 0 < length latest then Status_One (hd latest) else Status_None),
           ss_alerts = alerts1 @ alerts2,
           ss_generated_at = clk 0 \<rparr>)"

section \<open>Calendar\<close>

text \<open>
  The civil date (year, month, day) of a day number counted from 1970-01-01, in the
  proleptic Gregorian calendar of \<open>datetime\<close>.
\<close>

definition civil_from_days :: "int \<Rightarrow> int \<times> int \<times> int" where
  "civil_from_days n =
     (let z = n + 719468;
          era = z div 146097;
          doe = z mod 146097;
          yoe = (doe - doe div 1460 + doe div 36524 - doe div 146096) div 365;
          doy = doe - (365 * yoe + yoe div 4 - yoe div 100);
          mp = (5 * doy + 2) div 153;
          d = doy - (153 * mp + 2) div 5 + 1;
          m = (if mp < 10 then mp + 3 else mp - 9);
          y = yoe + era * 400 + (if m \<le> 2 then 1 else 0)
      in (y, m, d))"

definition date_of :: "datetime \<Rightarrow> int \<times> int \<times> int" where
  "date_of t = civil_from_days (t div 86400000000)"

text \<open>\<open>.month\<close> of a datetime: 1 to 12.\<close>

definition month_of :: "datetime \<Rightarrow> int" where
  "month_of t = (case date_of t of (y, m, d) \<Rightarrow> m)"

text \<open>
  \<open>.dt.to_period('M')\<close>: the calendar month of a datetime. A monthly period is kept as
  the number \<open>12 * year + (month - 1)\<close>, whose order is the order of the periods.
\<close>

definition to_period_M :: "datetime \<Rightarrow> int" where
  "to_period_M t = (case date_of t of (y, m, d) \<Rightarrow> 12 * y + (m - 1))"

text \<open>\<open>.replace(day=1)\<close>: the same time of day on the first day of the month.\<close>

definition replace_day_1 :: "datetime \<Rightarrow> datetime" where
  "replace_day_1 t = (case date_of t of (y, m, d) \<Rightarrow> t - timedelta_days (d - 1))"

section \<open>Aggregation\<close>

text \<open>
  \<open>Series.mean()\<close>: NaN on an empty selection. \<open>Series.std()\<close> (sample standard
  deviation): NaN on fewer than two values. \<open>nunique()\<close>: the number of distinct values.
\<close>

definition mean :: "real list \<Rightarrow> fnum" where
  "mean xs = (if xs = [] then NaN else Fin (sum_list xs / real (length xs)))"

definition std :: "real list \<Rightarrow> fnum" where
  "std xs =
     (if length xs < 2 then NaN
      else (let m = sum_list xs / real (length xs)
            in Fin (sqrt (sum_list (map (\<lambda>x. (x - m) ^ 2) xs) / real (length xs - 1)))))"

definition nunique :: "'a list \<Rightarrow> nat" where
  "nunique xs = length (remdups xs)"

text \<open>
  \<open>df.groupby(key)[col].sum()\<close> and \<open>.mean()\<close>: one entry per distinct key, in ascending
  order of the key. A group is never empty, so its mean is a number.
\<close>

definition groupby_sum :: "('r \<Rightarrow> 'k::linorder) \<Rightarrow> ('r \<Rightarrow> real) \<Rightarrow> 'r list \<Rightarrow> ('k \<times> real) list" where
  "groupby_sum key col df =
     map (\<lambda>k. (k, sum_list (map col (filter (\<lambda>r. key r = k) df))))
       (sort (remdups (map key df)))"

definition groupby_mean :: "('r \<Rightarrow> 'k::linorder) \<Rightarrow> ('r \<Rightarrow> real) \<Rightarrow> 'r list \<Rightarrow> ('k \<times> real) list" where
  "groupby_mean key col df =
     map (\<lambda>k. (k, sum_list (map col (filter (\<lambda>r. key r = k) df))
                   / real (length (filter (\<lambda>r. key r = k) df))))
       (sort (remdups (map key df)))"

text \<open>
  \<open>Series.idxmax()\<close> and \<open>Series.idxmin()\<close>: the first entry holding the largest
  (smallest) value, found by a scan that starts from the first entry.
\<close>

fun idxmax_from :: "'k \<times> real \<Rightarrow> ('k \<times> real) list \<Rightarrow> 'k \<times> real" where
  "idxmax_from best [] = best"
| "idxmax_from best (q # qs) = idxmax_from (if snd best < snd q then q else best) qs"

fun idxmin_from :: "'k \<times> real \<Rightarrow> ('k \<times> real) list \<Rightarrow> 'k \<times> real" where
  "idxmin_from best [] = best"
| "idxmin_from best (q # qs) = idxmin_from (if snd q < snd best then q else best) qs"

text \<open>
  \<open>Series.corr\<close> (Pearson) of two series of equal length: NaN when one of them has no
  variance.
\<close>

definition pearson :: "(real \<times> real) list \<Rightarrow> fnum" where
  "pearson ps =
     (let n = real (length ps);
          mx = sum_list (map fst ps) / n;
          my = sum_list (map snd ps) / n;
          sxy = sum_list (map (\<lambda>(x, y). (x - mx) * (y - my)) ps);
          sxx = sum_list (map (\<lambda>(x, y). (x - mx) ^ 2) ps);
          syy = sum_list (map (\<lambda>(x, y). (y - my) ^ 2) ps)
      in if sxx = 0 \<or> syy = 0 then NaN else Fin (sxy / (sqrt sxx * sqrt syy)))"

fun fabs :: "fnum \<Rightarrow> fnum" where
  "fabs (Fin a) = Fin \<bar>a\<bar>"
| "fabs PosInf = PosInf"
| "fabs NegInf = PosInf"
| "fabs NaN = NaN"

section \<open>Configuration: periods, seasons, markets\<close>

definition COMPARISON_PERIODS :: "(string \<times> int) list" where
  "COMPARISON_PERIODS =
     [(''current'', 30), (''month'', 30), (''quarter'', 90), (''season'', 180), (''year'', 365)]"

text \<open>\<open>COMPARISON_PERIODS.get(period, 30)\<close>\<close>

definition period_days :: "string \<Rightarrow> int" where
  "period_days period = (case map_of COMPARISON_PERIODS period of Some d \<Rightarrow> d | None \<Rightarrow> 30)"

definition MASIKA_HARVEST :: "int list" where "MASIKA_HARVEST = [6, 7, 8]"
definition VULI_HARVEST :: "int list" where "VULI_HARVEST = [1, 2]"
definition LEAN_SEASON :: "int list" where "LEAN_SEASON = [3, 4, 5]"

definition MARKETS :: "string list" where
  "MARKETS = [''Mbeya Central'', ''Iringa Central'', ''Songea Central'', ''Sumbawanga Central'',
     ''Morogoro Central'', ''Dodoma Central'', ''Arusha Central'', ''Moshi Central'',
     ''Kariakoo'', ''Mwenge'', ''Mwanza Central'', ''Shinyanga Central'']"

definition CURRENCY :: string where "CURRENCY = ''TZS''"

section \<open>Production, price and forecast tables\<close>

record production_row =
  p_date :: datetime
  p_region :: string
  quantity_tons :: real

record price_row =
  pr_date :: datetime
  market :: string
  quality_grade :: string
  price_per_kg_tzs :: real

text \<open>
  The production forecast summary (\<open>forecast_summary.csv\<close>) has one row per region; the
  price forecast summary one row per month, market and grade. A forecast loader returns
  \<open>None\<close> when its file does not exist: the tables are optional.
\<close>

record production_forecast_row =
  f_region :: string
  historical_avg :: real
  forecast_avg :: real
  growth_pct :: real

record price_forecast_row =
  pf_month :: datetime
  pf_market :: string
  pf_grade :: string
  yhat :: real

datatype py_error = UnboundLocalError | ValueError | KeyError | TypeError

section \<open>Function 1: national summary\<close>

record national_production =
  np_total_tons :: real
  np_avg_per_region :: real
  np_active_regions :: nat

record national_prices =
  npr_avg_price_tzs :: fnum
  npr_currency :: string
  npr_active_markets :: nat

record national_summary =
  ns_period :: string
  ns_period_days :: int
  ns_production :: national_production
  ns_prices :: national_prices
  ns_storage :: storage_totals
  ns_generated_at :: datetime

text \<open>
  The source filters the three tables to the period; of the filtered storage table
  (\<open>storage_period\<close>) it makes no use: the latest record per warehouse is taken from
  the whole storage table.
\<close>

definition get_national_summary ::
  "string \<Rightarrow> production_row list \<Rightarrow> price_row list \<Rightarrow> storage_row list \<Rightarrow> clock
     \<Rightarrow> national_summary" where
  "get_national_summary period production_df price_df storage_df clk =
     (let days = period_days period;
          cutoff_date = clk 0 - timedelta_days days;
          prod_period = filter (\<lambda>r. cutoff_date \<le> p_date r) production_df;
          price_period = filter (\<lambda>r. cutoff_date \<le> pr_date r) price_df;
          storage_period = filter (\<lambda>r. cutoff_date \<le> s_date r) storage_df;
          total_production = sum_list (map quantity_tons prod_period);
          avg_price = mean (map price_per_kg_tzs price_period);
          latest_storage = latest_per_warehouse storage_df;
          total_stored = sum_list (map quantity_stored_tons latest_storage);
          total_capacity = sum_list (map capacity_tons latest_storage);
          storage_utilization =
            (if 0 < total_capacity then total_stored / total_capacity * 100 else 0);
          active_regions = nunique (map p_region prod_period);
          active_markets = nunique (map market price_period);
          active_warehouses = length latest_storage
      in \<lparr> ns_period = period,
           ns_period_days = days,
           ns_production =
             \<lparr> np_total_tons = round_to DP_quantity total_production,
               np_avg_per_region =
                 (if 0 < active_regions
                  then round_to DP_quantity (total_production / real active_regions) else 0),
               np_active_regions = active_regions \<rparr>,
           ns_prices =
             \<lparr> npr_avg_price_tzs = fround DP_price avg_price,
               npr_currency = CURRENCY,
               npr_active_markets = active_markets \<rparr>,
           ns_storage =
             \<lparr> st_total_stored_tons = round_to DP_quantity total_stored,
               st_total_capacity_tons = round_to DP_quantity total_capacity,
               st_utilization_percent = round_to DP_utilization storage_utilization,
               st_active_warehouses = active_warehouses \<rparr>,
           ns_generated_at = clk 1 \<rparr>)"

section \<open>Function 2: production summary\<close>

record current_period =
  cp_total_production_tons :: real
  cp_avg_monthly_tons :: fnum
  cp_yoy_growth_percent :: real

record forecast_comparison =
  fc_forecast_avg_tons :: real
  fc_historical_avg_tons :: real
  fc_growth_percent :: real

record production_summary =
  ps_region :: string
  ps_period :: string
  ps_current_period :: current_period
  ps_regional_breakdown :: "(string \<times> real) list"
  ps_forecast_comparison :: "forecast_comparison option"
  ps_generated_at :: datetime

text \<open>
  The body of the \<open>try\<close> block that joins the forecast summary. The local variable
  \<open>region_forecast\<close> is assigned only under \<open>if region:\<close>, and read right after it in
  \<open>len(region_forecast)\<close>: without a region the read raises \<open>UnboundLocalError\<close>. With a
  region, its first forecast row is reported, and the aggregate over all regions when it
  has none.
\<close>

definition forecast_join ::
  "string option \<Rightarrow> production_forecast_row list \<Rightarrow> py_error + forecast_comparison" where
  "forecast_join region forecasts_df =
     (if truthy region
      then (let region_forecast = filter (\<lambda>r. Some (f_region r) = region) forecasts_df
            in if 0 < length region_forecast
               then Inr \<lparr> fc_forecast_avg_tons =
                            round_to DP_quantity (forecast_avg (hd region_forecast)),
                          fc_historical_avg_tons =
                            round_to DP_quantity (historical_avg (hd region_forecast)),
                          fc_growth_percent =
                            round_to DP_percentage (growth_pct (hd region_forecast)) \<rparr>
               else (let forecast_total = sum_list (map forecast_avg forecasts_df);
                         historical_total = sum_list (map historical_avg forecasts_df);
                         growth = (if 0 < historical_total
                                   then (forecast_total - historical_total) / historical_total * 100
                                   else 0)
                     in Inr \<lparr> fc_forecast_avg_tons = round_to DP_quantity forecast_total,
                              fc_historical_avg_tons = round_to DP_quantity historical_total,
                              fc_growth_percent = round_to DP_percentage growth \<rparr>))
      else Inl UnboundLocalError)"

text \<open>
  \<open>forecast_comparison\<close> starts as \<open>None\<close>; \<open>except Exception: pass\<close> leaves it so
  when the join raises.
\<close>

definition get_production_summary ::
  "string option \<Rightarrow> string \<Rightarrow> production_row list \<Rightarrow> production_forecast_row list option
     \<Rightarrow> clock \<Rightarrow> production_summary" where
  "get_production_summary region period production_df0 forecasts_df clk =
     (let production_df =
            (if truthy region then filter (\<lambda>r. Some (p_region r) = region) production_df0
             else production_df0);
          days = period_days period;
          cutoff_date = clk 0 - timedelta_days days;
          prod_period = filter (\<lambda>r. cutoff_date \<le> p_date r) production_df;
          total_production = sum_list (map quantity_tons prod_period);
          avg_monthly =
            mean (map snd (groupby_sum (\<lambda>r. to_period_M (p_date r)) quantity_tons prod_period));
          yoy_cutoff = cutoff_date - timedelta_days 365;
          yoy_period =
            filter (\<lambda>r. yoy_cutoff \<le> p_date r \<and> p_date r < cutoff_date) production_df;
          yoy_production = sum_list (map quantity_tons yoy_period);
          yoy_growth =
            (if 0 < yoy_production
             then (total_production - yoy_production) / yoy_production * 100 else 0);
          regional_breakdown =
            map (\<lambda>(k, v). (k, round_to DP_quantity v))
              (groupby_sum p_region quantity_tons prod_period);
          forecast_comparison =
            (case forecasts_df of
               None \<Rightarrow> None
             | Some fdf \<Rightarrow>
                 (case forecast_join region fdf of Inr fc \<Rightarrow> Some fc | Inl e \<Rightarrow> None))
      in \<lparr> ps_region =
             (case region of Some r \<Rightarrow> (if r \<noteq> [] then r else ''National'')
              | None \<Rightarrow> ''National''),
           ps_period = period,
           ps_current_period =
             \<lparr> cp_total_production_tons = round_to DP_quantity total_production,
               cp_avg_monthly_tons = fround DP_quantity avg_monthly,
               cp_yoy_growth_percent = round_to DP_percentage yoy_growth \<rparr>,
           ps_regional_breakdown = regional_breakdown,
           ps_forecast_comparison = forecast_comparison,
           ps_generated_at = clk 1 \<rparr>)"

section \<open>Function 7: supply-demand balance\<close>

record current_balance =
  cb_status :: string
  cb_message :: string
  cb_production_tons :: real
  cb_avg_price_tzs :: real
  cb_storage_tons :: real

record correlation_analysis =
  ca_price_production_correlation :: "fnum option"
  ca_interpretation :: string

text \<open>
  The surplus and shortage periods are reported as the texts \<open>str(m)\<close> of the monthly
  periods; the model keeps the periods themselves. The arrow in the first interpretation
  text of the source is written \<open>->\<close>.
\<close>

record historical_patterns =
  hp_surplus_periods :: "int list"
  hp_shortage_periods :: "int list"
  hp_avg_production :: fnum
  hp_production_volatility :: fnum

record supply_demand_balance =
  sd_current_balance :: current_balance
  sd_correlation_analysis :: correlation_analysis
  sd_historical_patterns :: historical_patterns
  sd_generated_at :: datetime

text \<open>
  \<open>pd.DataFrame({'production': ..., 'price': ...}).dropna()\<close>: the months that have
  both a production total and a mean price, in order.
\<close>

definition correlation_rows :: "(int \<times> real) list \<Rightarrow> (int \<times> real) list \<Rightarrow> (real \<times> real) list" where
  "correlation_rows monthly_production monthly_price =
     concat (map (\<lambda>(k, v). (case map_of monthly_price k of Some w \<Rightarrow> [(v, w)] | None \<Rightarrow> []))
               monthly_production)"

text \<open>
  Python truth of the correlation in \<open>round(c, 3) if c else None\<close>: \<open>None\<close> is false,
  and so is the number 0.0; NaN is true.
\<close>

fun truthy_number :: "fnum option \<Rightarrow> bool" where
  "truthy_number None = False"
| "truthy_number (Some v) = (v \<noteq> Fin 0)"

definition get_supply_demand_balance ::
  "production_row list \<Rightarrow> price_row list \<Rightarrow> storage_row list \<Rightarrow> clock
     \<Rightarrow> supply_demand_balance" where
  "get_supply_demand_balance production_df price_df storage_df clk =
     (let monthly_production =
            groupby_sum (\<lambda>r. to_period_M (p_date r)) quantity_tons production_df;
          monthly_price =
            groupby_mean (\<lambda>r. to_period_M (pr_date r)) price_per_kg_tzs price_df;
          monthly_storage =
            groupby_mean (\<lambda>r. to_period_M (s_date r)) quantity_stored_tons storage_df;
          correlation_df = correlation_rows monthly_production monthly_price;
          price_prod_correlation =
            (if 2 < length correlation_df then Some (pearson correlation_df) else None);
          prod_mean = mean (map snd monthly_production);
          prod_std = std (map snd monthly_production);
          surplus_months =
            map fst (filter (\<lambda>(k, v). fgt (Fin v) (fadd prod_mean prod_std)) monthly_production);
          shortage_months =
            map fst (filter (\<lambda>(k, v). flt (Fin v) (fsub prod_mean prod_std)) monthly_production);
          latest_prod = (if 0 < length monthly_production then snd (last monthly_production) else 0);
          latest_price = (if 0 < length monthly_price then snd (last monthly_price) else 0);
          latest_storage = (if 0 < length monthly_storage then snd (last monthly_storage) else 0);
          status_and_message =
            (if fgt (Fin latest_prod) prod_mean
             then (''surplus'', ''Production above average - favorable supply conditions'')
             else if flt (Fin latest_prod) (fsub prod_mean prod_std)
             then (''shortage'', ''Production below average - potential supply constraints'')
             else (''balanced'', ''Production at normal levels''))
      in \<lparr> sd_current_balance =
             \<lparr> cb_status = fst status_and_message,
               cb_message = snd status_and_message,
               cb_production_tons = round_to DP_quantity latest_prod,
               cb_avg_price_tzs = round_to DP_price latest_price,
               cb_storage_tons = round_to DP_quantity latest_storage \<rparr>,
           sd_correlation_analysis =
             \<lparr> ca_price_production_correlation =
                 (if truthy_number price_prod_correlation
                  then map_option (fround 3) price_prod_correlation else None),
               ca_interpretation =
                 (if truthy_number price_prod_correlation
                     \<and> (case price_prod_correlation of Some c \<Rightarrow> flt c (Fin 0) | None \<Rightarrow> False)
                  then ''Negative correlation expected (high production -> low prices)''
                  else ''Positive correlation indicates other factors at play'') \<rparr>,
           sd_historical_patterns =
             \<lparr> hp_surplus_periods = surplus_months,
               hp_shortage_periods = shortage_months,
               hp_avg_production = fround DP_quantity prod_mean,
               hp_production_volatility = fround DP_quantity prod_std \<rparr>,
           sd_generated_at = clk 0 \<rparr>)"

section \<open>Function 8: market opportunities\<close>

record arbitrage =
  ar_buy_market :: string
  ar_buy_price_tzs :: real
  ar_sell_market :: string
  ar_sell_price_tzs :: real
  ar_price_gap_tzs :: real
  ar_profit_margin_percent :: fnum
  ar_recommendation :: string

record quality_premium =
  qp_grade_c_price_tzs :: real
  qp_grade_a_price_tzs :: real
  qp_premium_percent :: fnum
  qp_recommendation :: string

record timing_recommendation =
  tr_current_period :: string
  tr_action :: string
  tr_reason :: string
  tr_confidence :: string

record forecast_opportunity =
  fo_market :: string
  fo_current_price :: real
  fo_forecast_price :: real
  fo_change_percent :: fnum
  fo_action :: string

record opportunities =
  mo_arbitrage_opportunity :: arbitrage
  mo_quality_premium_opportunity :: "quality_premium option"
  mo_timing_recommendation :: timing_recommendation
  mo_forecast_opportunities :: "forecast_opportunity list option"
  mo_generated_at :: datetime

text \<open>
  The result is either the dictionary with the single key \<open>message\<close> or the full report.
\<close>

datatype market_opportunities = Message_Only string | Report opportunities

text \<open>
  \<open>current_prices[current_prices['quality_grade'] == 'A'].groupby('market')[...].mean()\<close>,
  on the prices of the trailing 7 days.
\<close>

definition current_prices_of :: "price_row list \<Rightarrow> datetime \<Rightarrow> price_row list" where
  "current_prices_of price_df now =
     filter (\<lambda>r. now - timedelta_days 7 \<le> pr_date r) price_df"

definition grade_a_market_prices :: "price_row list \<Rightarrow> (string \<times> real) list" where
  "grade_a_market_prices current_prices =
     groupby_mean market price_per_kg_tzs
       (filter (\<lambda>r. quality_grade r = ''A'') current_prices)"

definition timing_of :: "int \<Rightarrow> timing_recommendation" where
  "timing_of current_month =
     (if current_month \<in> set LEAN_SEASON
      then \<lparr> tr_current_period = ''Lean season'', tr_action = ''SELL NOW'',
             tr_reason = ''Prices typically peak during lean season (March-May)'',
             tr_confidence = ''High'' \<rparr>
      else if current_month \<in> set MASIKA_HARVEST
      then \<lparr> tr_current_period = ''Masika harvest'', tr_action = ''HOLD or STORE'',
             tr_reason = ''Prices typically drop during harvest. Consider storage for better prices later.'',
             tr_confidence = ''High'' \<rparr>
      else if current_month \<in> set VULI_HARVEST
      then \<lparr> tr_current_period = ''Vuli harvest'', tr_action = ''SELL MODERATE VOLUMES'',
             tr_reason = ''Moderate harvest period. Balance immediate sales with storage.'',
             tr_confidence = ''Medium'' \<rparr>
      else \<lparr> tr_current_period = ''Normal period'', tr_action = ''MONITOR'',
             tr_reason = ''Prices stable. Watch for seasonal changes.'',
             tr_confidence = ''Medium'' \<rparr>)"

text \<open>One round of the loop over the first five configured markets.\<close>

definition forecast_opportunity_of ::
  "price_row list \<Rightarrow> price_forecast_row list \<Rightarrow> string \<Rightarrow> forecast_opportunity list" where
  "forecast_opportunity_of current_prices forecast_next mkt =
     (let market_current =
            mean (map price_per_kg_tzs
              (filter (\<lambda>r. market r = mkt \<and> quality_grade r = ''A'') current_prices));
          market_forecast =
            map yhat (filter (\<lambda>r. pf_market r = mkt \<and> pf_grade r = ''A'') forecast_next)
      in (case (market_forecast, market_current) of
            (forecast_price # rest, Fin cur) \<Rightarrow>
              (let change_pct = fmul (fdiv (Fin (forecast_price - cur)) (Fin cur)) (Fin 100)
               in if fgt (fabs change_pct) (Fin 5)
                  then [\<lparr> fo_market = mkt,
                          fo_current_price = round_to DP_price cur,
                          fo_forecast_price = round_to DP_price forecast_price,
                          fo_change_percent = fround DP_percentage change_pct,
                          fo_action = (if fgt change_pct (Fin 5) then ''Consider storing''
                                       else ''Consider selling soon'') \<rparr>]
                  else [])
          | _ \<Rightarrow> []))"

text \<open>
  The price gap in percent is computed here on the exact means. In the source it is a
  float64 value, which can differ from the exact one by a rounding error of the division
  and the multiplication: where the exact percentage is 15 or 8, or within such an error
  of them, the source can choose the other recommendation. The results on the
  recommendation are stated for means whose gap percentage (20, 10 and 5) is away from
  both thresholds, where the float64 value rounds to the same one decimal place and
  lies on the same side of 15 and of 8.
\<close>

definition get_market_opportunities ::
  "price_row list \<Rightarrow> price_forecast_row list option \<Rightarrow> clock \<Rightarrow> market_opportunities" where
  "get_market_opportunities price_df price_forecasts clk =
     (let current_prices = current_prices_of price_df (clk 0);
          market_prices = grade_a_market_prices current_prices
      in (case market_prices of
            p # q # rest \<Rightarrow>
              (let max_entry = idxmax_from p (q # rest);
                   min_entry = idxmin_from p (q # rest);
                   max_price_market = fst max_entry;
                   min_price_market = fst min_entry;
                   max_price = snd max_entry;
                   min_price = snd min_entry;
                   price_gap = max_price - min_price;
                   price_gap_pct = fmul (fdiv (Fin price_gap) (Fin min_price)) (Fin 100);
                   arbitrage =
                     \<lparr> ar_buy_market = min_price_market,
                       ar_buy_price_tzs = round_to DP_price min_price,
                       ar_sell_market = max_price_market,
                       ar_sell_price_tzs = round_to DP_price max_price,
                       ar_price_gap_tzs = round_to DP_price price_gap,
                       ar_profit_margin_percent = fround DP_percentage price_gap_pct,
                       ar_recommendation =
                         (if fgt price_gap_pct (Fin 15) then ''Strong opportunity''
                          else if fgt price_gap_pct (Fin 8) then ''Moderate opportunity''
                          else ''Limited opportunity'') \<rparr>;
                   grade_prices = groupby_mean quality_grade price_per_kg_tzs current_prices;
                   quality_premium =
                     (case (map_of grade_prices ''A'', map_of grade_prices ''C'') of
                        (Some grade_a_price, Some grade_c_price) \<Rightarrow>
                          (let premium_pct =
                                 fmul (fdiv (Fin (grade_a_price - grade_c_price)) (Fin grade_c_price))
                                      (Fin 100)
                           in Some \<lparr> qp_grade_c_price_tzs = round_to DP_price grade_c_price,
                                     qp_grade_a_price_tzs = round_to DP_price grade_a_price,
                                     qp_premium_percent = fround DP_percentage premium_pct,
                                     qp_recommendation =
                                       (if fgt premium_pct (Fin 20)
                                        then ''Invest in quality improvement''
                                        else ''Moderate quality focus'') \<rparr>)
                      | _ \<Rightarrow> None);
                   timing_recommendation = timing_of (month_of (clk 1));
                   forecast_opportunities =
                     (case price_forecasts of
                        None \<Rightarrow> []
                      | Some pf \<Rightarrow>
                          (let next_month = replace_day_1 (clk 2 + timedelta_days 30);
                               forecast_next = filter (\<lambda>r. pf_month r = next_month) pf
                           in concat (map (forecast_opportunity_of current_prices forecast_next)
                                        (take 5 MARKETS))))
               in Report
                    \<lparr> mo_arbitrage_opportunity = arbitrage,
                      mo_quality_premium_opportunity = quality_premium,
                      mo_timing_recommendation = timing_recommendation,
                      mo_forecast_opportunities =
                        (if 0 < length forecast_opportunities
                         then Some forecast_opportunities else None),
                      mo_generated_at =
                        (case price_forecasts of None \<Rightarrow> clk 2 | Some pf \<Rightarrow> clk 3) \<rparr>)
          | _ \<Rightarrow> Message_Only ''Insufficient data for opportunity analysis''))"

section \<open>Function 3: price analysis\<close>











section \<open>Function 5: seasonal pattern\<close>


















section \<open>Function 6: forecast accuracy\<close>









section \<open>Tables read by the validators\<close>

text \<open>
  A validator receives the table as \<open>pd.read_csv\<close> returned it, with whatever columns and
  cells the file has, and it assigns columns of the table. A table is the list of its
  columns in order, each a name with its cells. A cell is a text, a number (NaN is the
  missing value), a parsed date, or NaT.
\<close>

datatype cell = Text string | Number fnum | Stamp datetime | NaT

type_synonym dataframe = "(string \<times> cell list) list"

definition len_df :: "dataframe \<Rightarrow> nat" where
  "len_df df = (case df of [] \<Rightarrow> 0 | (name, cells) # rest \<Rightarrow> length cells)"

text \<open>\<open>df[name]\<close>, read only after the required columns are known to be present.\<close>

definition column :: "dataframe \<Rightarrow> string \<Rightarrow> cell list" where
  "column df name = (case map_of df name of Some cells \<Rightarrow> cells | None \<Rightarrow> [])"

text \<open>\<open>df[name] = cells\<close>: replaces the column in place, or appends a new last column.\<close>

fun set_column :: "string \<Rightarrow> cell list \<Rightarrow> dataframe \<Rightarrow> dataframe" where
  "set_column name cells [] = [(name, cells)]"
| "set_column name cells ((n, c) # df) =
     (if n = name then (name, cells) # df else (n, c) # set_column name cells df)"

fun isnull :: "cell \<Rightarrow> bool" where
  "isnull (Number NaN) = True"
| "isnull NaT = True"
| "isnull c = False"

text \<open>
  An ordering comparison or an arithmetic operation on a column raises \<open>TypeError\<close>
  unless the column is numeric: \<open>numbers\<close> is \<open>None\<close> then.
\<close>

fun number_of :: "cell \<Rightarrow> fnum option" where
  "number_of (Number v) = Some v"
| "number_of c = None"

definition numbers :: "cell list \<Rightarrow> fnum list option" where
  "numbers cells = those (map number_of cells)"

text \<open>\<open>Series.isin(values)\<close>, \<open>Series.unique()\<close> (first occurrences, in order) and
  \<open>Series.nunique()\<close> (missing values not counted).\<close>

fun isin :: "cell \<Rightarrow> string list \<Rightarrow> bool" where
  "isin (Text s) values = (s \<in> set values)"
| "isin c values = False"

definition unique :: "cell list \<Rightarrow> cell list" where
  "unique cells = rev (remdups (rev cells))"

definition nunique_cells :: "cell list \<Rightarrow> nat" where
  "nunique_cells cells = length (remdups (filter (\<lambda>c. \<not> isnull c) cells))"

text \<open>Sum and mean of a numeric column: the missing values are skipped.\<close>

definition fsum :: "fnum list \<Rightarrow> fnum" where
  "fsum vs = foldl fadd (Fin 0) (filter (\<lambda>v. v \<noteq> NaN) vs)"

definition fmean :: "fnum list \<Rightarrow> fnum" where
  "fmean vs =
     (let present = filter (\<lambda>v. v \<noteq> NaN) vs
      in if present = [] then NaN else fdiv (fsum present) (Fin (real (length present))))"

text \<open>Smallest and largest date of a parsed date column; NaT when it has none.\<close>

fun stamps :: "cell list \<Rightarrow> datetime list" where
  "stamps [] = []"
| "stamps (Stamp t # cells) = t # stamps cells"
| "stamps (c # cells) = stamps cells"

definition date_min :: "cell list \<Rightarrow> cell" where
  "date_min cells = (case stamps cells of [] \<Rightarrow> NaT | t # ts \<Rightarrow> Stamp (fold min ts t))"

definition date_max :: "cell list \<Rightarrow> cell" where
  "date_max cells = (case stamps cells of [] \<Rightarrow> NaT | t # ts \<Rightarrow> Stamp (fold max ts t))"

text \<open>
  The two pandas functions whose inner working the validators do not depend on are
  parameters of the model: \<open>pd.to_datetime\<close> on a column, which returns the parsed column
  or raises (the text of the exception), and \<open>Series.quantile\<close>.
\<close>

record library =
  to_datetime :: "cell list \<Rightarrow> string + cell list"
  quantile :: "real \<Rightarrow> fnum list \<Rightarrow> fnum"

section \<open>Configuration used by the validators\<close>

definition REGIONS :: "string list" where
  "REGIONS = [''Mbeya'', ''Iringa'', ''Ruvuma'', ''Rukwa'', ''Morogoro'', ''Dodoma'',
     ''Arusha'', ''Kilimanjaro'', ''Dar es Salaam'', ''Mwanza'', ''Shinyanga'']"

definition QUALITY_GRADES :: "string list" where
  "QUALITY_GRADES = [''A'', ''B'', ''C'']"

definition PRICE_MIN_NORMAL :: real where "PRICE_MIN_NORMAL = 800"
definition PRICE_MAX_NORMAL :: real where "PRICE_MAX_NORMAL = 2500"

section \<open>Validation results\<close>

text \<open>
  The messages of the validators, one constructor per f-string of the source, holding
  the values the f-string prints:
  \<^item> \<open>Data_Empty d\<close>: "\<open>d\<close> data is empty";
  \<^item> \<open>Missing_Required_Columns cs\<close>: "Missing required columns: \<open>cs\<close>";
  \<^item> \<open>Invalid_Date_Format e\<close>: "Invalid date format: \<open>e\<close>";
  \<^item> \<open>Future_Dates n\<close>: "\<open>n\<close> records have future dates";
  \<^item> \<open>Invalid_Regions vs\<close>, \<open>Invalid_Markets vs\<close>, \<open>Invalid_Grades vs\<close>: "Invalid regions
    found: \<open>vs\<close>" and the like;
  \<^item> \<open>Negative_Quantities n\<close>, \<open>Zero_Quantities n\<close>: "\<open>n\<close> records have negative (zero)
    quantities"; \<open>Outliers n\<close>: "\<open>n\<close> potential outliers detected (extreme values)";
  \<^item> \<open>Non_Positive_Prices n\<close>, \<open>Low_Prices n\<close>, \<open>High_Prices n\<close>: "\<open>n\<close> records have
    non-positive prices", "unusually low prices", "unusually high prices";
  \<^item> \<open>Grade_A_Below_B m\<close>, \<open>Grade_B_Below_C m\<close>: "\<open>m\<close>: Grade A price lower than Grade B
    (unusual)" and the like;
  \<^item> \<open>Negative_Storage n\<close>: "\<open>n\<close> records have negative storage quantities";
    \<open>Non_Positive_Capacity n\<close>: "\<open>n\<close> records have non-positive capacity";
    \<open>Exceed_Capacity n\<close>: "\<open>n\<close> records exceed warehouse capacity (possible error or real
    overstocking)"; \<open>Critical_High_Utilization n\<close>: "\<open>n\<close> records show critical high
    utilization (>95%)";
  \<^item> \<open>Column_Missing_Values c p\<close>: "Column '\<open>c\<close>' has \<open>p\<close>% missing values";
  \<^item> \<open>Negative_Forecasts n\<close>, \<open>Invalid_Intervals n\<close>, \<open>Outside_Intervals n\<close>: the three
    messages of the forecast validator;
  \<^item> the remaining constructors are the info lines ("Total records: \<open>n\<close>", ...).
\<close>

datatype message =
    Data_Empty string
  | Missing_Required_Columns "string list"
  | Invalid_Date_Format string
  | Future_Dates nat
  | Invalid_Regions "cell list"
  | Invalid_Markets "cell list"
  | Invalid_Grades "cell list"
  | Negative_Quantities nat
  | Zero_Quantities nat
  | Outliers nat
  | Non_Positive_Prices nat
  | Low_Prices nat
  | High_Prices nat
  | Grade_A_Below_B cell
  | Grade_B_Below_C cell
  | Negative_Storage nat
  | Non_Positive_Capacity nat
  | Exceed_Capacity nat
  | Critical_High_Utilization nat
  | Column_Missing_Values string real
  | Negative_Forecasts nat
  | Invalid_Intervals nat
  | Outside_Intervals nat
  | Active_Warehouses nat
  | Total_Records nat
  | Date_Range cell cell
  | Regions_Count nat
  | Total_Production fnum
  | Markets_Count nat
  | Average_Price fnum
  | Total_Stored fnum
  | Total_Capacity fnum
  | Avg_Utilization fnum
  | Total_Forecasts nat
  | Forecast_Type string
  | Regions_Covered nat
  | Markets_Covered nat
  | Grades_Covered nat

record ValidationResult =
  errors :: "message list"
  warnings :: "message list"
  info :: "message list"

definition new_result :: ValidationResult where
  "new_result = \<lparr> errors = [], warnings = [], info = [] \<rparr>"

definition add_error :: "message \<Rightarrow> ValidationResult \<Rightarrow> ValidationResult" where
  "add_error m r = r\<lparr> errors := errors r @ [m] \<rparr>"

definition add_warning :: "message \<Rightarrow> ValidationResult \<Rightarrow> ValidationResult" where
  "add_warning m r = r\<lparr> warnings := warnings r @ [m] \<rparr>"

definition add_info :: "message \<Rightarrow> ValidationResult \<Rightarrow> ValidationResult" where
  "add_info m r = r\<lparr> info := info r @ [m] \<rparr>"

definition is_valid :: "ValidationResult \<Rightarrow> bool" where
  "is_valid r = (length (errors r) = 0)"

text \<open>\<open>if n > 0: result.add_...(message)\<close>, the shape of most checks.\<close>

definition when_positive :: "nat \<Rightarrow> (ValidationResult \<Rightarrow> ValidationResult)
    \<Rightarrow> ValidationResult \<Rightarrow> ValidationResult" where
  "when_positive n add r = (if 0 < n then add r else r)"

definition count_where :: "('a \<Rightarrow> bool) \<Rightarrow> 'a list \<Rightarrow> nat" where
  "count_where P xs = length (filter P xs)"

text \<open>
  The missing-value audit, one round of its loop per column: the percentage of missing
  cells among the rows of the table; above 20 an error, else above 5 a warning.
\<close>

definition missing_pct :: "nat \<Rightarrow> cell list \<Rightarrow> real" where
  "missing_pct n cells = real (count_where isnull cells) / real n * 100"

definition audit_column :: "nat \<Rightarrow> string \<times> cell list \<Rightarrow> ValidationResult \<Rightarrow> ValidationResult" where
  "audit_column n col r =
     (if 0 < count_where isnull (snd col)
      then (let pct = missing_pct n (snd col)
            in if 20 < pct then add_error (Column_Missing_Values (fst col) pct) r
               else if 5 < pct then add_warning (Column_Missing_Values (fst col) pct) r
               else r)
      else r)"

definition missing_audit :: "dataframe \<Rightarrow> ValidationResult \<Rightarrow> ValidationResult" where
  "missing_audit df r = fold (audit_column (len_df df)) df r"

text \<open>The required columns that the table lacks.\<close>

definition missing_columns :: "string list \<Rightarrow> dataframe \<Rightarrow> string list" where
  "missing_columns required_columns df =
     filter (\<lambda>c. c \<notin> set (map fst df)) required_columns"

definition future_dates :: "datetime \<Rightarrow> cell list \<Rightarrow> nat" where
  "future_dates now cells =
     count_where (\<lambda>c. case c of Stamp t \<Rightarrow> now < t | _ \<Rightarrow> False) cells"

section \<open>Production data validation\<close>

text \<open>The checks between the date conversion and the missing-value audit.\<close>

definition production_checks ::
  "library \<Rightarrow> dataframe \<Rightarrow> datetime \<Rightarrow> fnum list \<Rightarrow> ValidationResult \<Rightarrow> ValidationResult" where
  "production_checks lib df now quantity r0 =
     (let r1 = when_positive (future_dates now (column df ''date''))
                 (add_warning (Future_Dates (future_dates now (column df ''date'')))) r0;
          invalid_regions = filter (\<lambda>c. \<not> isin c REGIONS) (column df ''region'');
          r2 = when_positive (length invalid_regions)
                 (add_error (Invalid_Regions (unique invalid_regions))) r1;
          negative_count = count_where (\<lambda>v. flt v (Fin 0)) quantity;
          r3 = when_positive negative_count (add_error (Negative_Quantities negative_count)) r2;
          zero_count = count_where (\<lambda>v. v = Fin 0) quantity;
          r4 = when_positive zero_count (add_warning (Zero_Quantities zero_count)) r3;
          q1 = quantile lib (25 / 100) quantity;
          q3 = quantile lib (75 / 100) quantity;
          iqr = fsub q3 q1;
          lower_bound = fsub q1 (fmul (Fin 3) iqr);
          upper_bound = fadd q3 (fmul (Fin 3) iqr);
          outliers = count_where (\<lambda>v. flt v lower_bound \<or> fgt v upper_bound) quantity
      in when_positive outliers (add_warning (Outliers outliers)) r4)"

definition production_info :: "dataframe \<Rightarrow> fnum list \<Rightarrow> ValidationResult \<Rightarrow> ValidationResult" where
  "production_info df quantity r =
     add_info (Total_Production (fsum quantity))
       (add_info (Regions_Count (nunique_cells (column df ''region'')))
         (add_info (Date_Range (date_min (column df ''date'')) (date_max (column df ''date'')))
           (add_info (Total_Records (len_df df)) r)))"

text \<open>
  A validator returns the table as the call leaves it, and either the result or the
  exception that the call raises.
\<close>

definition validate_production_data ::
  "library \<Rightarrow> dataframe \<Rightarrow> clock \<Rightarrow> dataframe \<times> (py_error + ValidationResult)" where
  "validate_production_data lib df clk =
     (if len_df df = 0 then (df, Inr (add_error (Data_Empty ''Production'') new_result))
      else if missing_columns [''date'', ''region'', ''quantity_tons''] df \<noteq> []
      then (df, Inr (add_error
              (Missing_Required_Columns
                 (missing_columns [''date'', ''region'', ''quantity_tons''] df)) new_result))
      else (case to_datetime lib (column df ''date'') of
              Inl e \<Rightarrow> (df, Inr (add_error (Invalid_Date_Format e) new_result))
            | Inr dates \<Rightarrow>
                (let df1 = set_column ''date'' dates df
                 in (case numbers (column df1 ''quantity_tons'') of
                       None \<Rightarrow> (df1, Inl TypeError)
                     | Some quantity \<Rightarrow>
                         (df1, Inr (production_info df1 quantity
                                 (missing_audit df1
                                   (production_checks lib df1 (clk 0) quantity new_result))))))))"

section \<open>Storage data validation\<close>

definition storage_checks ::
  "fnum list \<Rightarrow> fnum list \<Rightarrow> ValidationResult \<Rightarrow> ValidationResult" where
  "storage_checks stored capacity r0 =
     (let negative_count = count_where (\<lambda>v. flt v (Fin 0)) stored;
          r1 = when_positive negative_count (add_error (Negative_Storage negative_count)) r0;
          invalid_count = count_where (\<lambda>v. fle v (Fin 0)) capacity;
          r2 = when_positive invalid_count (add_error (Non_Positive_Capacity invalid_count)) r1;
          overstocked = count_where (\<lambda>(q, c). fgt q c) (zip stored capacity)
      in when_positive overstocked (add_warning (Exceed_Capacity overstocked)) r2)"

text \<open>\<open>df['utilization'] = df['quantity_stored_tons'] / df['capacity_tons'] * 100\<close>\<close>

definition utilization_column :: "fnum list \<Rightarrow> fnum list \<Rightarrow> fnum list" where
  "utilization_column stored capacity =
     map (\<lambda>(q, c). fmul (fdiv q c) (Fin 100)) (zip stored capacity)"

definition storage_info ::
  "dataframe \<Rightarrow> fnum list \<Rightarrow> fnum list \<Rightarrow> fnum list \<Rightarrow> ValidationResult \<Rightarrow> ValidationResult" where
  "storage_info df stored capacity utilization r =
     add_info (Avg_Utilization (fmean utilization))
       (add_info (Total_Capacity (fsum capacity))
         (add_info (Total_Stored (fsum stored))
           (add_info (Date_Range (date_min (column df ''date'')) (date_max (column df ''date'')))
             (add_info (Total_Records (len_df df)) r))))"

definition validate_storage_data ::
  "library \<Rightarrow> dataframe \<Rightarrow> dataframe \<times> (py_error + ValidationResult)" where
  "validate_storage_data lib df =
     (if len_df df = 0 then (df, Inr (add_error (Data_Empty ''Storage'') new_result))
      else if missing_columns
                [''date'', ''warehouse_id'', ''quantity_stored_tons'', ''capacity_tons''] df \<noteq> []
      then (df, Inr (add_error
              (Missing_Required_Columns
                 (missing_columns
                    [''date'', ''warehouse_id'', ''quantity_stored_tons'', ''capacity_tons''] df))
              new_result))
      else (case to_datetime lib (column df ''date'') of
              Inl e \<Rightarrow> (df, Inr (add_error (Invalid_Date_Format e) new_result))
            | Inr dates \<Rightarrow>
                (let df1 = set_column ''date'' dates df
                 in (case (numbers (column df1 ''quantity_stored_tons''),
                           numbers (column df1 ''capacity_tons'')) of
                       (Some stored, Some capacity) \<Rightarrow>
                         (let r1 = storage_checks stored capacity new_result;
                              utilization = utilization_column stored capacity;
                              df2 = set_column ''utilization'' (map Number utilization) df1;
                              critical_high = count_where (\<lambda>u. fgt u (Fin 95)) utilization;
                              r2 = when_positive critical_high
                                     (add_warning (Critical_High_Utilization critical_high)) r1;
                              r3 = add_info
                                     (Active_Warehouses (nunique_cells (column df2 ''warehouse_id'')))
                                     r2
                          in (df2, Inr (storage_info df2 stored capacity utilization
                                          (missing_audit df2 r3))))
                     | _ \<Rightarrow> (df1, Inl TypeError)))))"

section \<open>Price data validation\<close>

text \<open>
  \<open>df[df['market'] == market]\<close> and the grouping by grade: the prices of the rows of one
  market and one grade. A missing market equals nothing, itself included.
\<close>

definition prices_of :: "cell \<Rightarrow> string \<Rightarrow> (cell \<times> cell \<times> fnum) list \<Rightarrow> fnum list" where
  "prices_of mkt grade rows =
     map (\<lambda>(m, g, v). v)
       (filter (\<lambda>(m, g, v). m = mkt \<and> \<not> isnull mkt \<and> g = Text grade) rows)"

text \<open>
  One round of the loop over \<open>df['market'].unique()\<close>: a grade is in the index of the
  grouped means when the market has a row of that grade.
\<close>

definition grade_hierarchy :: "(cell \<times> cell \<times> fnum) list \<Rightarrow> cell \<Rightarrow> ValidationResult \<Rightarrow> ValidationResult" where
  "grade_hierarchy rows mkt r0 =
     (let a = prices_of mkt ''A'' rows;
          b = prices_of mkt ''B'' rows;
          c = prices_of mkt ''C'' rows;
          r1 = (if a \<noteq> [] \<and> b \<noteq> [] \<and> flt (fmean a) (fmean b)
                then add_warning (Grade_A_Below_B mkt) r0 else r0)
      in if b \<noteq> [] \<and> c \<noteq> [] \<and> flt (fmean b) (fmean c)
         then add_warning (Grade_B_Below_C mkt) r1 else r1)"

definition price_checks ::
  "dataframe \<Rightarrow> datetime \<Rightarrow> fnum list \<Rightarrow> ValidationResult \<Rightarrow> ValidationResult" where
  "price_checks df now price r0 =
     (let r1 = when_positive (future_dates now (column df ''date''))
                 (add_warning (Future_Dates (future_dates now (column df ''date'')))) r0;
          invalid_markets = filter (\<lambda>c. \<not> isin c MARKETS) (column df ''market'');
          r2 = when_positive (length invalid_markets)
                 (add_error (Invalid_Markets (unique invalid_markets))) r1;
          invalid_grades = filter (\<lambda>c. \<not> isin c QUALITY_GRADES) (column df ''quality_grade'');
          r3 = when_positive (length invalid_grades)
                 (add_error (Invalid_Grades (unique invalid_grades))) r2;
          negative_count = count_where (\<lambda>v. fle v (Fin 0)) price;
          r4 = when_positive negative_count (add_error (Non_Positive_Prices negative_count)) r3;
          too_low = count_where (\<lambda>v. flt v (Fin PRICE_MIN_NORMAL)) price;
          r5 = when_positive too_low (add_warning (Low_Prices too_low)) r4;
          too_high = count_where (\<lambda>v. fgt v (Fin PRICE_MAX_NORMAL)) price;
          r6 = when_positive too_high (add_warning (High_Prices too_high)) r5;
          rows = zip (column df ''market'') (zip (column df ''quality_grade'') price)
      in fold (grade_hierarchy rows) (unique (column df ''market'')) r6)"

definition price_info :: "dataframe \<Rightarrow> fnum list \<Rightarrow> ValidationResult \<Rightarrow> ValidationResult" where
  "price_info df price r =
     add_info (Average_Price (fmean price))
       (add_info (Markets_Count (nunique_cells (column df ''market'')))
         (add_info (Date_Range (date_min (column df ''date'')) (date_max (column df ''date'')))
           (add_info (Total_Records (len_df df)) r)))"

definition validate_price_data ::
  "library \<Rightarrow> dataframe \<Rightarrow> clock \<Rightarrow> dataframe \<times> (py_error + ValidationResult)" where
  "validate_price_data lib df clk =
     (if len_df df = 0 then (df, Inr (add_error (Data_Empty ''Price'') new_result))
      else if missing_columns [''date'', ''market'', ''price_per_kg_tzs'', ''quality_grade''] df \<noteq> []
      then (df, Inr (add_error
              (Missing_Required_Columns
                 (missing_columns [''date'', ''market'', ''price_per_kg_tzs'', ''quality_grade''] df))
              new_result))
      else (case to_datetime lib (column df ''date'') of
              Inl e \<Rightarrow> (df, Inr (add_error (Invalid_Date_Format e) new_result))
            | Inr dates \<Rightarrow>
                (let df1 = set_column ''date'' dates df
                 in (case numbers (column df1 ''price_per_kg_tzs'') of
                       None \<Rightarrow> (df1, Inl TypeError)
                     | Some price \<Rightarrow>
                         (df1, Inr (price_info df1 price
                                 (missing_audit df1
                                   (price_checks df1 (clk 0) price new_result))))))))"

section \<open>Forecast data validation\<close>

text \<open>
  The forecast validator parses no date, assigns no column and has no missing-value
  audit. Its three measures must be numeric for its comparisons not to raise.
\<close>

definition forecast_required_columns :: "string \<Rightarrow> string list" where
  "forecast_required_columns forecast_type =
     (if forecast_type = ''production''
      then [''ds'', ''yhat'', ''yhat_lower'', ''yhat_upper'', ''region'']
      else [''month'', ''yhat'', ''yhat_lower'', ''yhat_upper'', ''market'', ''grade''])"

definition forecast_checks ::
  "fnum list \<Rightarrow> fnum list \<Rightarrow> fnum list \<Rightarrow> ValidationResult \<Rightarrow> ValidationResult" where
  "forecast_checks y lower upper r0 =
     (let negative_count = count_where (\<lambda>v. flt v (Fin 0)) y;
          r1 = when_positive negative_count (add_error (Negative_Forecasts negative_count)) r0;
          invalid_ci = count_where (\<lambda>(l, u). fgt l u) (zip lower upper);
          r2 = when_positive invalid_ci (add_error (Invalid_Intervals invalid_ci)) r1;
          outside_ci =
            count_where (\<lambda>(v, l, u). flt v l \<or> fgt v u) (zip y (zip lower upper))
      in when_positive outside_ci (add_warning (Outside_Intervals outside_ci)) r2)"

definition forecast_info :: "dataframe \<Rightarrow> string \<Rightarrow> ValidationResult \<Rightarrow> ValidationResult" where
  "forecast_info df forecast_type r =
     (let r1 = add_info (Forecast_Type forecast_type) (add_info (Total_Forecasts (len_df df)) r)
      in if forecast_type = ''production''
         then add_info (Regions_Covered (nunique_cells (column df ''region''))) r1
         else add_info (Grades_Covered (nunique_cells (column df ''grade'')))
                (add_info (Markets_Covered (nunique_cells (column df ''market''))) r1))"

definition validate_forecast_data ::
  "dataframe \<Rightarrow> string \<Rightarrow> dataframe \<times> (py_error + ValidationResult)" where
  "validate_forecast_data df forecast_type =
     (if len_df df = 0 then (df, Inr (add_error (Data_Empty ''Forecast'') new_result))
      else if missing_columns (forecast_required_columns forecast_type) df \<noteq> []
      then (df, Inr (add_error
              (Missing_Required_Columns
                 (missing_columns (forecast_required_columns forecast_type) df)) new_result))
      else (case (numbers (column df ''yhat''), numbers (column df ''yhat_lower''),
                  numbers (column df ''yhat_upper'')) of
              (Some y, Some lower, Some upper) \<Rightarrow>
                (df, Inr (forecast_info df forecast_type (forecast_checks y lower upper new_result)))
            | _ \<Rightarrow> (df, Inl TypeError)))"

section \<open>The backing files and the system clock\<close>

















section \<open>Example tables\<close>

text \<open>
  A storage file of four records in no particular order: warehouse \<open>W1\<close> has an older
  record besides its latest one.
\<close>

definition storage_example :: "storage_row list" where
  "storage_example =
     [\<lparr> s_date = 1730678400000000, warehouse_id = ''W1'', s_region = ''Mbeya'',
         quantity_stored_tons = 95, capacity_tons = 100 \<rparr>,
      \<lparr> s_date = 1730073600000000, warehouse_id = ''W1'', s_region = ''Mbeya'',
         quantity_stored_tons = 50, capacity_tons = 100 \<rparr>,
      \<lparr> s_date = 1730678400000000, warehouse_id = ''W3'', s_region = ''Iringa'',
         quantity_stored_tons = 60, capacity_tons = 100 \<rparr>,
      \<lparr> s_date = 1730678400000000, warehouse_id = ''W2'', s_region = ''Iringa'',
         quantity_stored_tons = 5, capacity_tons = 100 \<rparr>]"

text \<open>
  A storage file whose only record, of 2023-09-01, is more than a year older than the
  clock reading 2024-11-04 used with it.
\<close>

definition storage_stale :: "storage_row list" where
  "storage_stale =
     [\<lparr> s_date = 1693526400000000, warehouse_id = ''W1'', s_region = ''Mbeya'',
         quantity_stored_tons = 50, capacity_tons = 100 \<rparr>]"

text \<open>
  Three months of production (2024-01-15, 2024-02-15, 2024-03-15: 100, 200 and 300 tons)
  and of prices (1400, 1100 and 1400 per kg on the same days).
\<close>

definition production_three_months :: "production_row list" where
  "production_three_months =
     [\<lparr> p_date = 1705276800000000, p_region = ''Mbeya'', quantity_tons = 100 \<rparr>,
      \<lparr> p_date = 1707955200000000, p_region = ''Mbeya'', quantity_tons = 200 \<rparr>,
      \<lparr> p_date = 1710460800000000, p_region = ''Mbeya'', quantity_tons = 300 \<rparr>]"

definition price_three_months :: "price_row list" where
  "price_three_months =
     [\<lparr> pr_date = 1705276800000000, market = ''Mbeya Central'', quality_grade = ''A'',
         price_per_kg_tzs = 1400 \<rparr>,
      \<lparr> pr_date = 1707955200000000, market = ''Mbeya Central'', quality_grade = ''A'',
         price_per_kg_tzs = 1100 \<rparr>,
      \<lparr> pr_date = 1710460800000000, market = ''Mbeya Central'', quality_grade = ''A'',
         price_per_kg_tzs = 1400 \<rparr>]"

text \<open>
  Prices read at 2024-11-04: grade A in two markets during the trailing 7 days (Mbeya
  Central at 1150 and 1250, Iringa Central at 1000), a grade B record, and an old
  grade A record of another market.
\<close>

definition price_two_markets :: "price_row list" where
  "price_two_markets =
     [\<lparr> pr_date = 1730419200000000, market = ''Mbeya Central'', quality_grade = ''A'', price_per_kg_tzs = 1150 \<rparr>,
      \<lparr> pr_date = 1730678400000000, market = ''Mbeya Central'', quality_grade = ''A'', price_per_kg_tzs = 1250 \<rparr>,
      \<lparr> pr_date = 1730678400000000, market = ''Iringa Central'', quality_grade = ''A'', price_per_kg_tzs = 1000 \<rparr>,
      \<lparr> pr_date = 1730678400000000, market = ''Kariakoo'', quality_grade = ''B'', price_per_kg_tzs = 900 \<rparr>,
      \<lparr> pr_date = 1705276800000000, market = ''Mwenge'', quality_grade = ''A'', price_per_kg_tzs = 2000 \<rparr>]"

text \<open>
  Prices read at 2024-11-04 with grade A prices of two markets in the trailing 7 days:
  1000 and 1100, and 1000 and 1050. A price file in which one market only has a grade A
  price in the trailing 7 days: the other market has a grade B price there and an older
  grade A price.
\<close>

definition price_gap_10 :: "price_row list" where
  "price_gap_10 =
     [\<lparr> pr_date = 1730678400000000, market = ''Iringa Central'', quality_grade = ''A'', price_per_kg_tzs = 1000 \<rparr>,
      \<lparr> pr_date = 1730678400000000, market = ''Mbeya Central'', quality_grade = ''A'', price_per_kg_tzs = 1100 \<rparr>]"

definition price_gap_5 :: "price_row list" where
  "price_gap_5 =
     [\<lparr> pr_date = 1730678400000000, market = ''Iringa Central'', quality_grade = ''A'', price_per_kg_tzs = 1000 \<rparr>,
      \<lparr> pr_date = 1730678400000000, market = ''Mbeya Central'', quality_grade = ''A'', price_per_kg_tzs = 1050 \<rparr>]"

definition price_one_market :: "price_row list" where
  "price_one_market =
     [\<lparr> pr_date = 1730678400000000, market = ''Mbeya Central'', quality_grade = ''A'', price_per_kg_tzs = 1200 \<rparr>,
      \<lparr> pr_date = 1730678400000000, market = ''Iringa Central'', quality_grade = ''B'', price_per_kg_tzs = 1000 \<rparr>,
      \<lparr> pr_date = 1705276800000000, market = ''Iringa Central'', quality_grade = ''A'', price_per_kg_tzs = 1000 \<rparr>]"

text \<open>
  A library for the examples: its \<open>to_datetime\<close> takes a column that already holds
  parsed dates (and returns it as it is), its \<open>quantile\<close> interpolates linearly between
  the two nearest of the sorted finite values, as pandas does by default.
\<close>

fun finite_values :: "fnum list \<Rightarrow> real list" where
  "finite_values [] = []"
| "finite_values (Fin x # vs) = x # finite_values vs"
| "finite_values (v # vs) = finite_values vs"

definition quantile_linear :: "real \<Rightarrow> fnum list \<Rightarrow> fnum" where
  "quantile_linear q vs =
     (let xs = sort (finite_values vs); n = length xs
      in if n = 0 then NaN
         else (let pos = q * real (n - 1);
                   lo = nat \<lfloor>pos\<rfloor>;
                   hi = min (lo + 1) (n - 1)
               in Fin (xs ! lo + (xs ! hi - xs ! lo) * (pos - real lo))))"

definition example_library :: library where
  "example_library = \<lparr> to_datetime = (\<lambda>cells. Inr cells), quantile = quantile_linear \<rparr>"

text \<open>A storage file of one record that holds 150 tons in a warehouse of 100.\<close>

definition storage_frame_over :: dataframe where
  "storage_frame_over =
     [(''date'', [Stamp 1730678400000000]),
      (''warehouse_id'', [Text ''W1'']),
      (''quantity_stored_tons'', [Number (Fin 150)]),
      (''capacity_tons'', [Number (Fin 100)])]"

text \<open>
  Production files: one of 20 records with one missing quantity (5 percent), one of two
  records with one missing quantity (50 percent). A forecast file of two records with
  one missing lower bound. A price file of two records.
\<close>

definition production_frame_5pct :: dataframe where
  "production_frame_5pct =
     [(''date'', replicate 20 (Stamp 1730678400000000)),
      (''region'', replicate 20 (Text ''Mbeya'')),
      (''quantity_tons'', Number NaN # replicate 19 (Number (Fin 100)))]"

definition production_frame_half :: dataframe where
  "production_frame_half =
     [(''date'', [Stamp 1730678400000000, Stamp 1730678400000000]),
      (''region'', [Text ''Mbeya'', Text ''Iringa'']),
      (''quantity_tons'', [Number NaN, Number (Fin 100)])]"

definition forecast_frame_half :: dataframe where
  "forecast_frame_half =
     [(''ds'', [Text ''2025-01-01'', Text ''2025-02-01'']),
      (''yhat'', [Number (Fin 100), Number (Fin 110)]),
      (''yhat_lower'', [Number NaN, Number (Fin 100)]),
      (''yhat_upper'', [Number (Fin 120), Number (Fin 120)]),
      (''region'', [Text ''Mbeya'', Text ''Mbeya''])]"

definition price_frame_small :: dataframe where
  "price_frame_small =
     [(''date'', [Stamp 1730678400000000, Stamp 1730678400000000]),
      (''market'', [Text ''Kariakoo'', Text ''Mwenge'']),
      (''price_per_kg_tzs'', [Number (Fin 1200), Number (Fin 1100)]),
      (''quality_grade'', [Text ''A'', Text ''B''])]"




section \<open>Verification\<close>

subsection \<open>Auxiliary facts\<close>

lemma latest_per_warehouse_subset: "set (latest_per_warehouse df) \<subseteq> set df"
proof
  fix r assume "r \<in> set (latest_per_warehouse df)"
  then obtain k where k: "k \<in> set (map warehouse_id (sort_key s_date df))"
    and r: "r = last (filter (\<lambda>r. warehouse_id r = k) (sort_key s_date df))"
    by (auto simp: latest_per_warehouse_def Let_def)
  from k have "filter (\<lambda>r. warehouse_id r = k) (sort_key s_date df) \<noteq> []"
    by (auto simp: filter_empty_conv)
  then have "r \<in> set (filter (\<lambda>r. warehouse_id r = k) (sort_key s_date df))"
    unfolding r by (rule last_in_set)
  then show "r \<in> set df" by simp
qed

lemma round_to_zero: "round_to d 0 = 0"
  by (simp add: round_to_def round_half_even_def)

lemma round_to_int: "round_to d (of_int n) = of_int n"
  by (simp add: round_to_def round_half_even_def Let_def flip: of_int_power of_int_mult)

lemma str_nat_values:
  "str_nat (Suc 0) = ''1''" "str_nat 90 = ''90''" "str_nat 10 = ''10''"
  by code_simp+

lemma latest_storage_example:
  "latest_per_warehouse storage_example
     = [storage_example ! 0, storage_example ! 3, storage_example ! 2]"
  by (simp add: latest_per_warehouse_def storage_example_def)

lemma utilization_storage_example:
  "with_utilization (storage_example ! 0)
     = \<lparr> we_warehouse_id = ''W1'', we_region = ''Mbeya'', we_quantity_stored_tons = 95,
         we_capacity_tons = 100, we_utilization_percent = Fin 95 \<rparr>"
  "with_utilization (storage_example ! 3)
     = \<lparr> we_warehouse_id = ''W2'', we_region = ''Iringa'', we_quantity_stored_tons = 5,
         we_capacity_tons = 100, we_utilization_percent = Fin 5 \<rparr>"
  "with_utilization (storage_example ! 2)
     = \<lparr> we_warehouse_id = ''W3'', we_region = ''Iringa'', we_quantity_stored_tons = 60,
         we_capacity_tons = 100, we_utilization_percent = Fin 60 \<rparr>"
  using round_to_int [of 1 95] round_to_int [of 1 5] round_to_int [of 1 60]
  by (simp_all add: storage_example_def with_utilization_def DP_utilization_def)

subsection \<open>Storage status\<close>

text \<open>
  Claim C7. When the latest records per warehouse are exactly three warehouses with
  stored and capacity (95, 100), (5, 100) and (60, 100), \<open>get_storage_status()\<close> computes
  the utilizations 95, 5 and 60, counts one overstocked, one understocked and one
  optimal warehouse, and returns exactly two alerts: \<open>overstocked\<close> with severity
  \<open>high\<close> naming the first warehouse, then \<open>understocked\<close> with severity \<open>medium\<close>
  naming the second.
\<close>

theorem get_storage_status_scenario:
  assumes "map (\<lambda>r. (warehouse_id r, quantity_stored_tons r, capacity_tons r))
             (latest_per_warehouse storage_df)
           = [(w1, 95, 100), (w2, 5, 100), (w3, 60, 100)]"
  shows "ss_utilization_categories (get_storage_status None storage_df clk)
           = \<lparr> optimal = 1, overstocked = 1, understocked = 1 \<rparr>
       \<and> ss_alerts (get_storage_status None storage_df clk)
           = [\<lparr> alert_type = ''overstocked'', severity = ''high'',
                 message = ''1 warehouse(s) over 90% capacity'', warehouses = [w1] \<rparr>,
              \<lparr> alert_type = ''understocked'', severity = ''medium'',
                 message = ''1 warehouse(s) under 10% capacity'', warehouses = [w2] \<rparr>]
       \<and> (\<exists>es. ss_warehouse_status (get_storage_status None storage_df clk) = Status_List es
              \<and> map (\<lambda>e. (we_warehouse_id e, we_utilization_percent e)) es
                  = [(w1, Fin 95), (w2, Fin 5), (w3, Fin 60)])"
proof -
  from assms obtain r1 r2 r3 where l: "latest_per_warehouse storage_df = [r1, r2, r3]"
    and r1: "warehouse_id r1 = w1" "quantity_stored_tons r1 = 95" "capacity_tons r1 = 100"
    and r2: "warehouse_id r2 = w2" "quantity_stored_tons r2 = 5" "capacity_tons r2 = 100"
    and r3: "warehouse_id r3 = w3" "quantity_stored_tons r3 = 60" "capacity_tons r3 = 100"
    by (auto simp: map_eq_Cons_conv)
  have u: "we_utilization_percent (with_utilization r1) = Fin 95"
    "we_utilization_percent (with_utilization r2) = Fin 5"
    "we_utilization_percent (with_utilization r3) = Fin 60"
    using round_to_int [of 1 95] round_to_int [of 1 5] round_to_int [of 1 60]
    by (simp_all add: with_utilization_def r1 r2 r3 DP_utilization_def)
  have i: "we_warehouse_id (with_utilization r1) = w1"
    "we_warehouse_id (with_utilization r2) = w2"
    "we_warehouse_id (with_utilization r3) = w3"
    by (simp_all add: with_utilization_def r1 r2 r3)
  have cats: "ss_utilization_categories (get_storage_status None storage_df clk)
           = \<lparr> optimal = 1, overstocked = 1, understocked = 1 \<rparr>"
    by (simp add: get_storage_status_def Let_def l u fgt_def fge_def
        STORAGE_CRITICAL_HIGH_def STORAGE_CRITICAL_LOW_def
        STORAGE_OPTIMAL_MIN_def STORAGE_OPTIMAL_MAX_def)
  have als: "ss_alerts (get_storage_status None storage_df clk)
           = [\<lparr> alert_type = ''overstocked'', severity = ''high'',
                 message = ''1 warehouse(s) over 90% capacity'', warehouses = [w1] \<rparr>,
              \<lparr> alert_type = ''understocked'', severity = ''medium'',
                 message = ''1 warehouse(s) under 10% capacity'', warehouses = [w2] \<rparr>]"
    by (simp add: get_storage_status_def Let_def l u i str_nat_values fgt_def fge_def
        STORAGE_CRITICAL_HIGH_def STORAGE_CRITICAL_LOW_def
        STORAGE_OPTIMAL_MIN_def STORAGE_OPTIMAL_MAX_def)
  have sts: "\<exists>es. ss_warehouse_status (get_storage_status None storage_df clk) = Status_List es
              \<and> map (\<lambda>e. (we_warehouse_id e, we_utilization_percent e)) es
                  = [(w1, Fin 95), (w2, Fin 5), (w3, Fin 60)]"
    by (simp add: get_storage_status_def Let_def l u i)
  from cats als sts show ?thesis by blast
qed

theorem get_storage_status_scenario_witness:
  "map (\<lambda>r. (warehouse_id r, quantity_stored_tons r, capacity_tons r))
     (latest_per_warehouse storage_example)
     = [(''W1'', 95, 100), (''W2'', 5, 100), (''W3'', 60, 100)]
   \<and> ss_utilization_categories (get_storage_status None storage_example (\<lambda>i. 1730764800000000))
     = \<lparr> optimal = 1, overstocked = 1, understocked = 1 \<rparr>
   \<and> map warehouses (ss_alerts (get_storage_status None storage_example (\<lambda>i. 1730764800000000)))
     = [[''W1''], [''W2'']]"
proof -
  have h: "map (\<lambda>r. (warehouse_id r, quantity_stored_tons r, capacity_tons r))
     (latest_per_warehouse storage_example)
     = [(''W1'', 95, 100), (''W2'', 5, 100), (''W3'', 60, 100)]"
    by (simp add: latest_storage_example) (simp add: storage_example_def)
  show ?thesis
    using h get_storage_status_scenario [OF h, of "\<lambda>i. 1730764800000000"] by simp
qed

text \<open>
  Claim C10, as amended. For a non-empty warehouse identifier that matches no record of
  the storage data, \<open>get_storage_status(w)\<close> returns a result (the function has no
  raising branch): \<open>warehouse_status\<close> is \<open>None\<close>, the alert list is empty, the three
  category counts are 0 and the national totals and utilization are 0. The identifier
  has to be non-empty: \<open>if warehouse:\<close> takes the empty string, like \<open>None\<close>, for
  "no warehouse given".
\<close>

theorem get_storage_status_unknown_warehouse:
  assumes "w \<noteq> []" and "\<forall>r \<in> set storage_df. warehouse_id r \<noteq> w"
  shows "get_storage_status (Some w) storage_df clk =
     \<lparr> ss_warehouse = w,
       ss_national_summary = \<lparr> st_total_stored_tons = 0, st_total_capacity_tons = 0,
          st_utilization_percent = 0, st_active_warehouses = 0 \<rparr>,
       ss_utilization_categories = \<lparr> optimal = 0, overstocked = 0, understocked = 0 \<rparr>,
       ss_warehouse_status = Status_None,
       ss_alerts = [],
       ss_generated_at = clk 0 \<rparr>"
proof -
  have "\<forall>r \<in> set (latest_per_warehouse storage_df). warehouse_id r \<noteq> w"
    using assms(2) latest_per_warehouse_subset [of storage_df] by auto
  then show ?thesis
    using assms(1)
    by (auto simp add: get_storage_status_def Let_def round_to_zero filter_empty_conv)
qed

theorem get_storage_status_unknown_warehouse_witness:
  "''W9'' \<noteq> [] \<and> ''W9'' \<notin> set (map warehouse_id storage_example)
   \<and> ss_warehouse_status (get_storage_status (Some ''W9'') storage_example (\<lambda>i. 1730764800000000))
       = Status_None
   \<and> ss_alerts (get_storage_status (Some ''W9'') storage_example (\<lambda>i. 1730764800000000)) = []"
proof -
  have h1: "''W9'' \<noteq> []" by simp
  have h2: "\<forall>r \<in> set storage_example. warehouse_id r \<noteq> ''W9''"
    by (simp add: storage_example_def)
  have h3: "''W9'' \<notin> set (map warehouse_id storage_example)"
    by (simp add: storage_example_def)
  show ?thesis
    using h1 h3 get_storage_status_unknown_warehouse [OF h1 h2, of "\<lambda>i. 1730764800000000"]
    by simp
qed

text \<open>
  The claim as stated fails at the empty string: it matches no record of the example
  file, and the call reports all three warehouses with both alerts, as a call without
  a warehouse does.
\<close>

theorem get_storage_status_empty_identifier_counterexample:
  "'''' \<notin> set (map warehouse_id storage_example)
   \<and> ss_warehouse_status (get_storage_status (Some '''') storage_example (\<lambda>i. 1730764800000000))
       = Status_List
          [\<lparr> we_warehouse_id = ''W1'', we_region = ''Mbeya'', we_quantity_stored_tons = 95,
              we_capacity_tons = 100, we_utilization_percent = Fin 95 \<rparr>,
           \<lparr> we_warehouse_id = ''W2'', we_region = ''Iringa'', we_quantity_stored_tons = 5,
              we_capacity_tons = 100, we_utilization_percent = Fin 5 \<rparr>,
           \<lparr> we_warehouse_id = ''W3'', we_region = ''Iringa'', we_quantity_stored_tons = 60,
              we_capacity_tons = 100, we_utilization_percent = Fin 60 \<rparr>]
   \<and> map warehouses (ss_alerts (get_storage_status (Some '''') storage_example (\<lambda>i. 1730764800000000)))
       = [[''W1''], [''W2'']]
   \<and> ss_utilization_categories (get_storage_status (Some '''') storage_example (\<lambda>i. 1730764800000000))
       = \<lparr> optimal = 1, overstocked = 1, understocked = 1 \<rparr>
   \<and> st_active_warehouses (ss_national_summary
         (get_storage_status (Some '''') storage_example (\<lambda>i. 1730764800000000))) = 3"
proof -
  have n: "'''' \<notin> set (map warehouse_id storage_example)"
    by (simp add: storage_example_def)
  have s: "ss_warehouse_status (get_storage_status (Some '''') storage_example (\<lambda>i. 1730764800000000))
       = Status_List
          [\<lparr> we_warehouse_id = ''W1'', we_region = ''Mbeya'', we_quantity_stored_tons = 95,
              we_capacity_tons = 100, we_utilization_percent = Fin 95 \<rparr>,
           \<lparr> we_warehouse_id = ''W2'', we_region = ''Iringa'', we_quantity_stored_tons = 5,
              we_capacity_tons = 100, we_utilization_percent = Fin 5 \<rparr>,
           \<lparr> we_warehouse_id = ''W3'', we_region = ''Iringa'', we_quantity_stored_tons = 60,
              we_capacity_tons = 100, we_utilization_percent = Fin 60 \<rparr>]"
    by (simp add: get_storage_status_def Let_def latest_storage_example utilization_storage_example)
  have a: "map warehouses (ss_alerts (get_storage_status (Some '''') storage_example (\<lambda>i. 1730764800000000)))
       = [[''W1''], [''W2'']]"
    by (simp add: get_storage_status_def Let_def latest_storage_example utilization_storage_example
        fgt_def fge_def STORAGE_CRITICAL_HIGH_def STORAGE_CRITICAL_LOW_def)
  have c: "ss_utilization_categories (get_storage_status (Some '''') storage_example (\<lambda>i. 1730764800000000))
       = \<lparr> optimal = 1, overstocked = 1, understocked = 1 \<rparr>"
    by (simp add: get_storage_status_def Let_def latest_storage_example utilization_storage_example
        fgt_def fge_def STORAGE_CRITICAL_HIGH_def STORAGE_CRITICAL_LOW_def
        STORAGE_OPTIMAL_MIN_def STORAGE_OPTIMAL_MAX_def)
  have k: "st_active_warehouses (ss_national_summary
         (get_storage_status (Some '''') storage_example (\<lambda>i. 1730764800000000))) = 3"
    by (simp add: get_storage_status_def Let_def latest_storage_example)
  show ?thesis
    by (intro conjI n s a c k)
qed

subsection \<open>National summary\<close>

text \<open>
  Claim C4 says that the storage totals of \<open>get_national_summary\<close> come from the storage
  records inside the period window only. The source computes the windowed table and
  then takes the latest records from the whole table: with the period \<open>current\<close> (30
  days) read at 2024-11-04, the single record of 2023-09-01 lies outside the window (the
  windowed table is empty), and still the summary reports its 50 tons stored of 100 tons
  capacity.
\<close>

theorem get_national_summary_ignores_window:
  "filter (\<lambda>r. 1730678400000000 - timedelta_days (period_days ''current'') \<le> s_date r)
      storage_stale = []
   \<and> ns_storage (get_national_summary ''current'' [] [] storage_stale (\<lambda>i. 1730678400000000))
     = \<lparr> st_total_stored_tons = 50, st_total_capacity_tons = 100,
         st_utilization_percent = 50, st_active_warehouses = 1 \<rparr>"
proof -
  have l: "latest_per_warehouse storage_stale = storage_stale"
    by (simp add: latest_per_warehouse_def storage_stale_def)
  have r: "round_to DP_quantity 50 = 50" "round_to DP_quantity 100 = 100"
    "round_to DP_utilization 50 = 50"
    using round_to_int [of DP_quantity 50] round_to_int [of DP_quantity 100]
      round_to_int [of DP_utilization 50]
    by simp_all
  have f: "filter (\<lambda>r. 1730678400000000 - timedelta_days (period_days ''current'') \<le> s_date r)
      storage_stale = []"
    by (simp add: storage_stale_def timedelta_days_def period_days_def COMPARISON_PERIODS_def)
  have s: "ns_storage (get_national_summary ''current'' [] [] storage_stale (\<lambda>i. 1730678400000000))
     = \<lparr> st_total_stored_tons = 50, st_total_capacity_tons = 100,
         st_utilization_percent = 50, st_active_warehouses = 1 \<rparr>"
    by (simp add: get_national_summary_def Let_def l) (simp add: storage_stale_def r)
  from f s show ?thesis by blast
qed

subsection \<open>Production summary\<close>

text \<open>
  Claim C1 says that a call without a region reports the aggregate over all regions as
  its forecast comparison when the forecast summary exists. In the source the
  aggregation branch is reached only through \<open>len(region_forecast)\<close>, which is unbound
  without a region; the exception is swallowed and \<open>forecast_comparison\<close> stays \<open>None\<close>,
  whatever the forecast summary holds.
\<close>

theorem get_production_summary_unscoped_no_forecast:
  "ps_forecast_comparison
     (get_production_summary None period production_df (Some forecasts_df) clk) = None"
  by (simp add: get_production_summary_def forecast_join_def Let_def)

subsection \<open>Supply-demand balance\<close>

lemma three_months_periods:
  "to_period_M 1705276800000000 = 24288" "to_period_M 1707955200000000 = 24289"
  "to_period_M 1710460800000000 = 24290"
  by code_simp+

lemma monthly_production_three_months:
  "groupby_sum (\<lambda>r. to_period_M (p_date r)) quantity_tons production_three_months
     = [(24288, 100), (24289, 200), (24290, 300)]"
  by (simp add: groupby_sum_def production_three_months_def three_months_periods)

lemma monthly_price_three_months:
  "groupby_mean (\<lambda>r. to_period_M (pr_date r)) price_per_kg_tzs price_three_months
     = [(24288, 1400), (24289, 1100), (24290, 1400)]"
  by (simp add: groupby_mean_def price_three_months_def three_months_periods)

lemma correlation_rows_three_months:
  "correlation_rows [(24288, 100), (24289, 200), (24290, 300)]
       [(24288, 1400), (24289, 1100), (24290, 1400)]
     = [(100, 1400), (200, 1100), (300, 1400)]"
  by (simp add: correlation_rows_def)

lemma pearson_three_months: "pearson [(100, 1400), (200, 1100), (300, 1400)] = Fin 0"
  by (simp add: pearson_def Let_def)

text \<open>
  Claim C9 says that the correlation is reported whenever at least three months have
  both observations. Here three months have both, the Pearson correlation of (100, 200,
  300) against (1400, 1100, 1400) is 0, and \<open>round(c, 3) if c else None\<close> reports
  \<open>None\<close>, since the number 0.0 is false in Python.
\<close>

theorem get_supply_demand_balance_zero_correlation:
  "length (correlation_rows
      (groupby_sum (\<lambda>r. to_period_M (p_date r)) quantity_tons production_three_months)
      (groupby_mean (\<lambda>r. to_period_M (pr_date r)) price_per_kg_tzs price_three_months)) = 3
   \<and> ca_price_production_correlation (sd_correlation_analysis
       (get_supply_demand_balance production_three_months price_three_months [] clk)) = None"
  by (simp add: get_supply_demand_balance_def Let_def monthly_production_three_months
      monthly_price_three_months correlation_rows_three_months pearson_three_months)

subsection \<open>Market opportunities\<close>

lemma round_to_scenario_values:
  "round_to DP_price 200 = 200" "round_to DP_percentage 20 = 20"
  "round_to DP_price 1000 = 1000" "round_to DP_price 1200 = 1200"
  using round_to_int [of DP_price 200] round_to_int [of DP_percentage 20]
    round_to_int [of DP_price 1000] round_to_int [of DP_price 1200]
  by simp_all

lemma grade_a_prices_two_markets: "grade_a_market_prices (current_prices_of price_two_markets 1730678400000000)
   = [(''Iringa Central'', 1000), (''Mbeya Central'', 1200)]"
  by (simp add: grade_a_market_prices_def current_prices_of_def price_two_markets_def
      timedelta_days_def groupby_mean_def)

lemma round_to_tier_values:
  "round_to DP_percentage 10 = 10" "round_to DP_percentage 5 = 5"
  using round_to_int [of DP_percentage 10] round_to_int [of DP_percentage 5]
  by simp_all

lemma grade_a_prices_tiers:
  "grade_a_market_prices (current_prices_of price_gap_10 1730678400000000)
   = [(''Iringa Central'', 1000), (''Mbeya Central'', 1100)]"
  "grade_a_market_prices (current_prices_of price_gap_5 1730678400000000)
   = [(''Iringa Central'', 1000), (''Mbeya Central'', 1050)]"
  "grade_a_market_prices (current_prices_of price_one_market 1730678400000000)
   = [(''Mbeya Central'', 1200)]"
  by (simp_all add: grade_a_market_prices_def current_prices_of_def price_gap_10_def
      price_gap_5_def price_one_market_def timedelta_days_def groupby_mean_def)

text \<open>
  Claim C8. When exactly two markets have grade A prices in the trailing 7 days, with
  means 1000 (market \<open>m1\<close>) and 1200 (market \<open>m2\<close>), in either order of the market names,
  \<open>get_market_opportunities()\<close> reports the arbitrage opportunity: sell in \<open>m2\<close>, buy in
  \<open>m1\<close>, gap 200, margin 20.0 percent, "Strong opportunity". The two other tiers at
  means of 1000 and 1100 (margin 10.0, above 8: "Moderate opportunity") and of 1000 and
  1050 (margin 5.0: "Limited opportunity"). With fewer than two markets having grade A
  prices in the window, the result is the insufficient-data message.
\<close>

theorem get_market_opportunities_scenario:
  "((grade_a_market_prices (current_prices_of price_df (clk 0)) = [(m1, 1000), (m2, 1200)]
     \<or> grade_a_market_prices (current_prices_of price_df (clk 0)) = [(m2, 1200), (m1, 1000)])
    \<longrightarrow> (\<exists>rep. get_market_opportunities price_df price_forecasts clk = Report rep
          \<and> ar_sell_market (mo_arbitrage_opportunity rep) = m2
          \<and> ar_buy_market (mo_arbitrage_opportunity rep) = m1
          \<and> ar_sell_price_tzs (mo_arbitrage_opportunity rep) = 1200
          \<and> ar_buy_price_tzs (mo_arbitrage_opportunity rep) = 1000
          \<and> ar_price_gap_tzs (mo_arbitrage_opportunity rep) = 200
          \<and> ar_profit_margin_percent (mo_arbitrage_opportunity rep) = Fin 20
          \<and> ar_recommendation (mo_arbitrage_opportunity rep) = ''Strong opportunity''))
   \<and> (grade_a_market_prices (current_prices_of price_df (clk 0)) = [(m1, 1000), (m2, 1100)]
        \<longrightarrow> (\<exists>rep. get_market_opportunities price_df price_forecasts clk = Report rep
              \<and> ar_profit_margin_percent (mo_arbitrage_opportunity rep) = Fin 10
              \<and> ar_recommendation (mo_arbitrage_opportunity rep) = ''Moderate opportunity''))
   \<and> (grade_a_market_prices (current_prices_of price_df (clk 0)) = [(m1, 1000), (m2, 1050)]
        \<longrightarrow> (\<exists>rep. get_market_opportunities price_df price_forecasts clk = Report rep
              \<and> ar_profit_margin_percent (mo_arbitrage_opportunity rep) = Fin 5
              \<and> ar_recommendation (mo_arbitrage_opportunity rep) = ''Limited opportunity''))
   \<and> (length (grade_a_market_prices (current_prices_of price_df (clk 0))) < 2
        \<longrightarrow> get_market_opportunities price_df price_forecasts clk
            = Message_Only ''Insufficient data for opportunity analysis'')"
proof (intro conjI impI)
  assume "grade_a_market_prices (current_prices_of price_df (clk 0)) = [(m1, 1000), (m2, 1200)]
     \<or> grade_a_market_prices (current_prices_of price_df (clk 0)) = [(m2, 1200), (m1, 1000)]"
  then show "\<exists>rep. get_market_opportunities price_df price_forecasts clk = Report rep
          \<and> ar_sell_market (mo_arbitrage_opportunity rep) = m2
          \<and> ar_buy_market (mo_arbitrage_opportunity rep) = m1
          \<and> ar_sell_price_tzs (mo_arbitrage_opportunity rep) = 1200
          \<and> ar_buy_price_tzs (mo_arbitrage_opportunity rep) = 1000
          \<and> ar_price_gap_tzs (mo_arbitrage_opportunity rep) = 200
          \<and> ar_profit_margin_percent (mo_arbitrage_opportunity rep) = Fin 20
          \<and> ar_recommendation (mo_arbitrage_opportunity rep) = ''Strong opportunity''"
  proof
    assume h: "grade_a_market_prices (current_prices_of price_df (clk 0)) = [(m1, 1000), (m2, 1200)]"
    show ?thesis
      by (simp add: get_market_opportunities_def Let_def h fgt_def round_to_scenario_values)
  next
    assume h: "grade_a_market_prices (current_prices_of price_df (clk 0)) = [(m2, 1200), (m1, 1000)]"
    show ?thesis
      by (simp add: get_market_opportunities_def Let_def h fgt_def round_to_scenario_values)
  qed
next
  assume h: "grade_a_market_prices (current_prices_of price_df (clk 0)) = [(m1, 1000), (m2, 1100)]"
  show "\<exists>rep. get_market_opportunities price_df price_forecasts clk = Report rep
              \<and> ar_profit_margin_percent (mo_arbitrage_opportunity rep) = Fin 10
              \<and> ar_recommendation (mo_arbitrage_opportunity rep) = ''Moderate opportunity''"
    by (simp add: get_market_opportunities_def Let_def h fgt_def round_to_tier_values)
next
  assume h: "grade_a_market_prices (current_prices_of price_df (clk 0)) = [(m1, 1000), (m2, 1050)]"
  show "\<exists>rep. get_market_opportunities price_df price_forecasts clk = Report rep
              \<and> ar_profit_margin_percent (mo_arbitrage_opportunity rep) = Fin 5
              \<and> ar_recommendation (mo_arbitrage_opportunity rep) = ''Limited opportunity''"
    by (simp add: get_market_opportunities_def Let_def h fgt_def round_to_tier_values)
next
  assume "length (grade_a_market_prices (current_prices_of price_df (clk 0))) < 2"
  then show "get_market_opportunities price_df price_forecasts clk
            = Message_Only ''Insufficient data for opportunity analysis''"
    by (cases "grade_a_market_prices (current_prices_of price_df (clk 0))" rule: list.exhaust)
       (auto simp: get_market_opportunities_def Let_def split: list.splits)
qed

theorem get_market_opportunities_scenario_witness:
  "grade_a_market_prices (current_prices_of price_two_markets 1730678400000000)
     = [(''Iringa Central'', 1000), (''Mbeya Central'', 1200)]
   \<and> (\<exists>rep. get_market_opportunities price_two_markets None (\<lambda>i. 1730678400000000) = Report rep
         \<and> ar_sell_market (mo_arbitrage_opportunity rep) = ''Mbeya Central''
         \<and> ar_buy_market (mo_arbitrage_opportunity rep) = ''Iringa Central''
         \<and> ar_price_gap_tzs (mo_arbitrage_opportunity rep) = 200
         \<and> ar_profit_margin_percent (mo_arbitrage_opportunity rep) = Fin 20
         \<and> ar_recommendation (mo_arbitrage_opportunity rep) = ''Strong opportunity'')
   \<and> grade_a_market_prices (current_prices_of price_gap_10 1730678400000000)
     = [(''Iringa Central'', 1000), (''Mbeya Central'', 1100)]
   \<and> (\<exists>rep. get_market_opportunities price_gap_10 None (\<lambda>i. 1730678400000000) = Report rep
         \<and> ar_recommendation (mo_arbitrage_opportunity rep) = ''Moderate opportunity'')
   \<and> grade_a_market_prices (current_prices_of price_gap_5 1730678400000000)
     = [(''Iringa Central'', 1000), (''Mbeya Central'', 1050)]
   \<and> (\<exists>rep. get_market_opportunities price_gap_5 None (\<lambda>i. 1730678400000000) = Report rep
         \<and> ar_recommendation (mo_arbitrage_opportunity rep) = ''Limited opportunity'')
   \<and> length (grade_a_market_prices (current_prices_of price_one_market 1730678400000000)) = 1
   \<and> get_market_opportunities price_one_market None (\<lambda>i. 1730678400000000)
       = Message_Only ''Insufficient data for opportunity analysis''
   \<and> length (grade_a_market_prices (current_prices_of [] 1730678400000000)) = 0
   \<and> get_market_opportunities [] None (\<lambda>i. 1730678400000000)
       = Message_Only ''Insufficient data for opportunity analysis''"
proof -
  note t = get_market_opportunities_scenario [where clk = "\<lambda>i. 1730678400000000"
        and ?m1.0 = "''Iringa Central''" and ?m2.0 = "''Mbeya Central''" and price_forecasts = None]
  have h1: "grade_a_market_prices (current_prices_of price_two_markets 1730678400000000)
     = [(''Iringa Central'', 1000), (''Mbeya Central'', 1200)]"
    by (rule grade_a_prices_two_markets)
  have h2: "grade_a_market_prices (current_prices_of price_gap_10 1730678400000000)
     = [(''Iringa Central'', 1000), (''Mbeya Central'', 1100)]"
    by (rule grade_a_prices_tiers(1))
  have h3: "grade_a_market_prices (current_prices_of price_gap_5 1730678400000000)
     = [(''Iringa Central'', 1000), (''Mbeya Central'', 1050)]"
    by (rule grade_a_prices_tiers(2))
  have h4: "length (grade_a_market_prices (current_prices_of price_one_market 1730678400000000)) = 1"
    by (simp add: grade_a_prices_tiers(3))
  have h5: "length (grade_a_market_prices (current_prices_of [] 1730678400000000)) = 0"
    by (simp add: grade_a_market_prices_def current_prices_of_def groupby_mean_def)
  have r1: "\<exists>rep. get_market_opportunities price_two_markets None (\<lambda>i. 1730678400000000) = Report rep
         \<and> ar_sell_market (mo_arbitrage_opportunity rep) = ''Mbeya Central''
         \<and> ar_buy_market (mo_arbitrage_opportunity rep) = ''Iringa Central''
         \<and> ar_price_gap_tzs (mo_arbitrage_opportunity rep) = 200
         \<and> ar_profit_margin_percent (mo_arbitrage_opportunity rep) = Fin 20
         \<and> ar_recommendation (mo_arbitrage_opportunity rep) = ''Strong opportunity''"
    using h1 t [where price_df = price_two_markets, THEN conjunct1] by blast
  have r2: "\<exists>rep. get_market_opportunities price_gap_10 None (\<lambda>i. 1730678400000000) = Report rep
         \<and> ar_recommendation (mo_arbitrage_opportunity rep) = ''Moderate opportunity''"
    using h2 t [where price_df = price_gap_10, THEN conjunct2, THEN conjunct1] by blast
  have r3: "\<exists>rep. get_market_opportunities price_gap_5 None (\<lambda>i. 1730678400000000) = Report rep
         \<and> ar_recommendation (mo_arbitrage_opportunity rep) = ''Limited opportunity''"
    using h3 t [where price_df = price_gap_5, THEN conjunct2, THEN conjunct2, THEN conjunct1] by blast
  have r4: "get_market_opportunities price_one_market None (\<lambda>i. 1730678400000000)
       = Message_Only ''Insufficient data for opportunity analysis''"
    using h4 t [where price_df = price_one_market, THEN conjunct2, THEN conjunct2, THEN conjunct2]
    by simp
  have r5: "get_market_opportunities [] None (\<lambda>i. 1730678400000000)
       = Message_Only ''Insufficient data for opportunity analysis''"
    using h5 t [where price_df = "[]", THEN conjunct2, THEN conjunct2, THEN conjunct2]
    by simp
  show ?thesis by (intro conjI h1 h2 h3 h4 h5 r1 r2 r3 r4 r5)
qed

subsection \<open>Validation results and the missing-value audit\<close>

lemma result_add_simps:
  "errors (add_error m r) = errors r @ [m]" "warnings (add_error m r) = warnings r"
  "info (add_error m r) = info r"
  "errors (add_warning m r) = errors r" "warnings (add_warning m r) = warnings r @ [m]"
  "info (add_warning m r) = info r"
  "errors (add_info m r) = errors r" "warnings (add_info m r) = warnings r"
  "info (add_info m r) = info r @ [m]"
  "errors new_result = []" "warnings new_result = []" "info new_result = []"
  by (simp_all add: add_error_def add_warning_def add_info_def new_result_def)

lemma missing_pct_none: "count_where isnull cells = 0 \<Longrightarrow> missing_pct n cells = 0"
  by (simp add: missing_pct_def)

lemma errors_audit_column:
  "errors (audit_column n col r) =
     errors r @ (if 20 < missing_pct n (snd col)
                 then [Column_Missing_Values (fst col) (missing_pct n (snd col))] else [])"
  by (auto simp: result_add_simps audit_column_def Let_def missing_pct_none)

lemma warnings_audit_column:
  "warnings (audit_column n col r) =
     warnings r @ (if \<not> 20 < missing_pct n (snd col) \<and> 5 < missing_pct n (snd col)
                 then [Column_Missing_Values (fst col) (missing_pct n (snd col))] else [])"
  by (auto simp: result_add_simps audit_column_def Let_def missing_pct_none)

lemma info_audit_column: "info (audit_column n col r) = info r"
  by (auto simp: result_add_simps audit_column_def Let_def)

lemma errors_fold_audit:
  "errors (fold (audit_column n) cols r) =
     errors r @ map (\<lambda>col. Column_Missing_Values (fst col) (missing_pct n (snd col)))
                 (filter (\<lambda>col. 20 < missing_pct n (snd col)) cols)"
  by (induction cols arbitrary: r) (simp_all add: errors_audit_column)

lemma warnings_fold_audit:
  "warnings (fold (audit_column n) cols r) =
     warnings r @ map (\<lambda>col. Column_Missing_Values (fst col) (missing_pct n (snd col)))
                 (filter (\<lambda>col. \<not> 20 < missing_pct n (snd col) \<and> 5 < missing_pct n (snd col)) cols)"
  by (induction cols arbitrary: r) (simp_all add: warnings_audit_column)

lemma info_fold_audit: "info (fold (audit_column n) cols r) = info r"
  by (induction cols arbitrary: r) (simp_all add: info_audit_column)

lemma errors_storage_checks:
  "errors (storage_checks stored capacity r) =
     errors r
     @ (if 0 < count_where (\<lambda>v. flt v (Fin 0)) stored
        then [Negative_Storage (count_where (\<lambda>v. flt v (Fin 0)) stored)] else [])
     @ (if 0 < count_where (\<lambda>v. fle v (Fin 0)) capacity
        then [Non_Positive_Capacity (count_where (\<lambda>v. fle v (Fin 0)) capacity)] else [])"
  by (simp add: result_add_simps storage_checks_def Let_def when_positive_def)

lemma warnings_storage_checks:
  "warnings (storage_checks stored capacity r) =
     warnings r
     @ (if 0 < count_where (\<lambda>(q, c). fgt q c) (zip stored capacity)
        then [Exceed_Capacity (count_where (\<lambda>(q, c). fgt q c) (zip stored capacity))] else [])"
  by (simp add: result_add_simps storage_checks_def Let_def when_positive_def)

lemma count_where_zero: "(count_where P xs = 0) = (\<forall>x \<in> set xs. \<not> P x)"
  by (simp add: count_where_def filter_empty_conv)

subsection \<open>Storage validation\<close>

lemma validate_storage_frame_over: "validate_storage_data example_library storage_frame_over =
  (storage_frame_over @ [(''utilization'', [Number (Fin 150)])],
   Inr \<lparr> errors = [], warnings = [Exceed_Capacity 1, Critical_High_Utilization 1],
         info = [Active_Warehouses 1, Total_Records 1,
                 Date_Range (Stamp 1730678400000000) (Stamp 1730678400000000),
                 Total_Stored (Fin 150), Total_Capacity (Fin 100), Avg_Utilization (Fin 150)] \<rparr>)"
  by (simp add: validate_storage_data_def storage_frame_over_def example_library_def len_df_def
     missing_columns_def column_def numbers_def Let_def storage_checks_def count_where_def
     utilization_column_def fgt_def when_positive_def nunique_cells_def missing_audit_def
     audit_column_def storage_info_def add_info_def add_warning_def add_error_def new_result_def
     fsum_def fmean_def date_min_def date_max_def)

text \<open>
  Claim C5, as amended. For a storage table that reaches the checks (it has rows and the
  required columns, its dates parse, its two measures are numeric) and whose only rule
  violation is stored above capacity in some rows (no negative stored quantity, no
  non-positive capacity, no column with more than 20 percent missing), the result of
  \<open>validate_storage_data\<close> is valid: the condition adds an entry, with the number of such
  rows, to the warning list and none to the error list.
\<close>

theorem validate_storage_data_overstock_warns:
  assumes "len_df df \<noteq> 0"
    and "missing_columns [''date'', ''warehouse_id'', ''quantity_stored_tons'', ''capacity_tons''] df = []"
    and "to_datetime lib (column df ''date'') = Inr dates"
    and "numbers (column (set_column ''date'' dates df) ''quantity_stored_tons'') = Some stored"
    and "numbers (column (set_column ''date'' dates df) ''capacity_tons'') = Some capacity"
    and "\<forall>v \<in> set stored. \<not> flt v (Fin 0)"
    and "\<forall>v \<in> set capacity. \<not> fle v (Fin 0)"
    and "\<forall>col \<in> set (fst (validate_storage_data lib df)).
           missing_pct (len_df (fst (validate_storage_data lib df))) (snd col) \<le> 20"
    and "0 < count_where (\<lambda>(q, c). fgt q c) (zip stored capacity)"
  shows "\<exists>r. snd (validate_storage_data lib df) = Inr r \<and> is_valid r
           \<and> Exceed_Capacity (count_where (\<lambda>(q, c). fgt q c) (zip stored capacity))
               \<in> set (warnings r)"
proof -
  let ?df2 = "set_column ''utilization'' (map Number (utilization_column stored capacity))
                (set_column ''date'' dates df)"
  let ?r3 = "add_info (Active_Warehouses (nunique_cells (column ?df2 ''warehouse_id'')))
               (when_positive (count_where (\<lambda>u. fgt u (Fin 95)) (utilization_column stored capacity))
                  (add_warning (Critical_High_Utilization
                     (count_where (\<lambda>u. fgt u (Fin 95)) (utilization_column stored capacity))))
                  (storage_checks stored capacity new_result))"
  let ?r = "storage_info ?df2 stored capacity (utilization_column stored capacity)
              (missing_audit ?df2 ?r3)"
  have v: "validate_storage_data lib df = (?df2, Inr ?r)"
    using assms(1-5) by (simp add: result_add_simps validate_storage_data_def Let_def)
  have a: "filter (\<lambda>col. 20 < missing_pct (len_df ?df2) (snd col)) ?df2 = []"
    using assms(8) unfolding v by (auto simp: result_add_simps filter_empty_conv)
  have n: "count_where (\<lambda>v. flt v (Fin 0)) stored = 0" "count_where (\<lambda>v. fle v (Fin 0)) capacity = 0"
    using assms(6,7) by (simp_all add: result_add_simps count_where_zero)
  have e: "errors ?r = []"
    by (simp add: result_add_simps storage_info_def missing_audit_def errors_fold_audit a
        errors_storage_checks n when_positive_def)
  have w: "Exceed_Capacity (count_where (\<lambda>(q, c). fgt q c) (zip stored capacity)) \<in> set (warnings ?r)"
    using assms(9)
    by (simp add: result_add_simps storage_info_def missing_audit_def warnings_fold_audit
        warnings_storage_checks when_positive_def)
  from v e w show ?thesis by (simp add: result_add_simps is_valid_def)
qed

theorem validate_storage_data_overstock_warns_witness:
  "len_df storage_frame_over \<noteq> 0
   \<and> 0 < count_where (\<lambda>(q, c). fgt q c) (zip [Fin 150] [Fin 100])
   \<and> (\<exists>r. snd (validate_storage_data example_library storage_frame_over) = Inr r \<and> is_valid r
          \<and> Exceed_Capacity (count_where (\<lambda>(q, c). fgt q c) (zip [Fin 150] [Fin 100]))
              \<in> set (warnings r))"
proof -
  have h1: "len_df storage_frame_over \<noteq> 0"
    by (simp add: len_df_def storage_frame_over_def)
  have h2: "missing_columns [''date'', ''warehouse_id'', ''quantity_stored_tons'', ''capacity_tons'']
              storage_frame_over = []"
    by (simp add: missing_columns_def storage_frame_over_def)
  have h3: "to_datetime example_library (column storage_frame_over ''date'')
              = Inr [Stamp 1730678400000000]"
    by (simp add: example_library_def column_def storage_frame_over_def)
  have h4: "numbers (column (set_column ''date'' [Stamp 1730678400000000] storage_frame_over)
              ''quantity_stored_tons'') = Some [Fin 150]"
    by (simp add: numbers_def column_def storage_frame_over_def)
  have h5: "numbers (column (set_column ''date'' [Stamp 1730678400000000] storage_frame_over)
              ''capacity_tons'') = Some [Fin 100]"
    by (simp add: numbers_def column_def storage_frame_over_def)
  have h6: "\<forall>v \<in> set [Fin 150]. \<not> flt v (Fin 0)" by simp
  have h7: "\<forall>v \<in> set [Fin 100]. \<not> fle v (Fin 0)" by simp
  have h8: "\<forall>col \<in> set (fst (validate_storage_data example_library storage_frame_over)).
           missing_pct (len_df (fst (validate_storage_data example_library storage_frame_over)))
             (snd col) \<le> 20"
    by (simp add: validate_storage_frame_over)
       (simp add: storage_frame_over_def missing_pct_def count_where_def)
  have h9: "0 < count_where (\<lambda>(q, c). fgt q c) (zip [Fin 150] [Fin 100])"
    by (simp add: count_where_def fgt_def)
  from h1 h9 validate_storage_data_overstock_warns [OF h1 h2 h3 h4 h5 h6 h7 h8 h9]
  show ?thesis by blast
qed

text \<open>
  The claim as stated fails: on the file of one record with 150 tons stored in a
  warehouse of 100, where nothing else is wrong, the result has no error and is valid.
\<close>

theorem validate_storage_data_overstock_counterexample:
  "\<exists>r. snd (validate_storage_data example_library storage_frame_over) = Inr r
       \<and> errors r = [] \<and> is_valid r \<and> Exceed_Capacity 1 \<in> set (warnings r)"
  by (simp add: validate_storage_frame_over is_valid_def)

subsection \<open>What a validator does to the table\<close>

lemma map_of_set_column:
  "map_of (set_column name cells df) c = (if c = name then Some cells else map_of df c)"
  by (induction df) auto

lemma names_set_column:
  "name \<in> set (map fst df) \<Longrightarrow> map fst (set_column name cells df) = map fst df"
  by (induction df) force+

lemma missing_columns_date:
  "missing_columns (''date'' # required) df = [] \<Longrightarrow> ''date'' \<in> set (map fst df)"
  by (auto simp: missing_columns_def split: if_splits)

text \<open>
  Claim C3, as amended. \<open>validate_forecast_data\<close> leaves the table as it was.
  \<open>validate_production_data\<close> and \<open>validate_price_data\<close> assign the parsed dates to the
  column \<open>date\<close>: every other column keeps its cells, and the column names stay the same.
  \<open>validate_storage_data\<close> assigns the columns \<open>date\<close> and \<open>utilization\<close>: every other
  column keeps its cells.
\<close>

theorem validators_frame:
  "(\<forall>c. c \<noteq> ''date'' \<longrightarrow> map_of (fst (validate_production_data lib df clk)) c = map_of df c)
   \<and> map fst (fst (validate_production_data lib df clk)) = map fst df
   \<and> (\<forall>c. c \<noteq> ''date'' \<longrightarrow> map_of (fst (validate_price_data lib df clk)) c = map_of df c)
   \<and> map fst (fst (validate_price_data lib df clk)) = map fst df
   \<and> (\<forall>c. c \<noteq> ''date'' \<and> c \<noteq> ''utilization''
         \<longrightarrow> map_of (fst (validate_storage_data lib df)) c = map_of df c)
   \<and> fst (validate_forecast_data df forecast_type) = df"
proof (intro conjI allI impI)
  fix c :: string assume "c \<noteq> ''date''"
  then show "map_of (fst (validate_production_data lib df clk)) c = map_of df c"
    by (simp add: validate_production_data_def Let_def map_of_set_column
        split: sum.splits option.splits)
next
  show "map fst (fst (validate_production_data lib df clk)) = map fst df"
    by (auto simp: validate_production_data_def Let_def names_set_column
        dest: missing_columns_date split: sum.splits option.splits)
next
  fix c :: string assume "c \<noteq> ''date''"
  then show "map_of (fst (validate_price_data lib df clk)) c = map_of df c"
    by (simp add: validate_price_data_def Let_def map_of_set_column
        split: sum.splits option.splits)
next
  show "map fst (fst (validate_price_data lib df clk)) = map fst df"
    by (auto simp: validate_price_data_def Let_def names_set_column
        dest: missing_columns_date split: sum.splits option.splits)
next
  fix c :: string assume "c \<noteq> ''date'' \<and> c \<noteq> ''utilization''"
  then show "map_of (fst (validate_storage_data lib df)) c = map_of df c"
    by (simp add: validate_storage_data_def Let_def map_of_set_column
        split: sum.splits option.splits prod.splits)
next
  show "fst (validate_forecast_data df forecast_type) = df"
    by (simp add: validate_forecast_data_def split: option.splits prod.splits)
qed

theorem validators_frame_witness:
  "''region'' \<noteq> ''date''
   \<and> map_of (fst (validate_production_data example_library production_frame_half
                    (\<lambda>i. 1730764800000000))) ''region''
       = Some [Text ''Mbeya'', Text ''Iringa'']
   \<and> ''market'' \<noteq> ''date''
   \<and> map_of (fst (validate_price_data example_library price_frame_small
                    (\<lambda>i. 1730764800000000))) ''market''
       = Some [Text ''Kariakoo'', Text ''Mwenge'']
   \<and> ''warehouse_id'' \<noteq> ''date'' \<and> ''warehouse_id'' \<noteq> ''utilization''
   \<and> map_of (fst (validate_storage_data example_library storage_frame_over)) ''warehouse_id''
       = Some [Text ''W1'']"
proof -
  have n1: "''region'' \<noteq> ''date''" by simp
  have n2: "''market'' \<noteq> ''date''" by simp
  have n3: "''warehouse_id'' \<noteq> ''date'' \<and> ''warehouse_id'' \<noteq> ''utilization''" by simp
  have a: "map_of (fst (validate_production_data example_library production_frame_half
                    (\<lambda>i. 1730764800000000))) ''region''
       = map_of production_frame_half ''region''"
    by (rule validators_frame [of example_library production_frame_half
        "\<lambda>i. 1730764800000000" "''production''", THEN conjunct1, rule_format, OF n1])
  have b: "map_of (fst (validate_price_data example_library price_frame_small
                    (\<lambda>i. 1730764800000000))) ''market''
       = map_of price_frame_small ''market''"
    by (rule validators_frame [of example_library price_frame_small
        "\<lambda>i. 1730764800000000" "''production''", THEN conjunct2, THEN conjunct2,
        THEN conjunct1, rule_format, OF n2])
  have c: "map_of (fst (validate_storage_data example_library storage_frame_over)) ''warehouse_id''
       = map_of storage_frame_over ''warehouse_id''"
    by (rule validators_frame [of example_library storage_frame_over
        "\<lambda>i. 1730764800000000" "''production''", THEN conjunct2, THEN conjunct2,
        THEN conjunct2, THEN conjunct2, THEN conjunct1, rule_format, OF n3])
  have d: "map_of production_frame_half ''region'' = Some [Text ''Mbeya'', Text ''Iringa'']"
    "map_of price_frame_small ''market'' = Some [Text ''Kariakoo'', Text ''Mwenge'']"
    "map_of storage_frame_over ''warehouse_id'' = Some [Text ''W1'']"
    by (simp_all add: production_frame_half_def price_frame_small_def storage_frame_over_def)
  show ?thesis
    unfolding a b c d by simp
qed

text \<open>
  The claim as stated fails: after \<open>validate_storage_data\<close> the table has a column that
  it did not have before the call.
\<close>

theorem validate_storage_data_adds_column_counterexample:
  "map fst storage_frame_over
     = [''date'', ''warehouse_id'', ''quantity_stored_tons'', ''capacity_tons'']
   \<and> map fst (fst (validate_storage_data example_library storage_frame_over))
     = [''date'', ''warehouse_id'', ''quantity_stored_tons'', ''capacity_tons'', ''utilization'']"
  by (simp add: validate_storage_frame_over) (simp add: storage_frame_over_def)

subsection \<open>The missing-value audit of the validators\<close>

lemma validate_production_frame_5pct: "validate_production_data example_library production_frame_5pct (\<lambda>i. 1730764800000000)
   = (production_frame_5pct,
      Inr \<lparr> errors = [], warnings = [],
            info = [Total_Records 20, Date_Range (Stamp 1730678400000000) (Stamp 1730678400000000),
                    Regions_Count 1, Total_Production (Fin 1900)] \<rparr>)"
  by code_simp

lemma validate_production_frame_half: "validate_production_data example_library production_frame_half (\<lambda>i. 1730764800000000)
   = (production_frame_half,
      Inr \<lparr> errors = [Column_Missing_Values ''quantity_tons'' 50], warnings = [],
            info = [Total_Records 2, Date_Range (Stamp 1730678400000000) (Stamp 1730678400000000),
                    Regions_Count 2, Total_Production (Fin 100)] \<rparr>)"
  by code_simp

lemma validate_forecast_frame_half: "validate_forecast_data forecast_frame_half ''production''
   = (forecast_frame_half,
      Inr \<lparr> errors = [], warnings = [],
            info = [Total_Forecasts 2, Forecast_Type ''production'', Regions_Covered 1] \<rparr>)"
  by code_simp

lemma missing_pct_examples: "missing_pct (len_df production_frame_5pct) (column production_frame_5pct ''quantity_tons'') = 5"
  "missing_pct (len_df forecast_frame_half) (column forecast_frame_half ''yhat_lower'') = 50"
  by code_simp+

lemma production_reach:
  "validate_production_data lib df clk = (df', Inr r) \<Longrightarrow> info r \<noteq> [] \<Longrightarrow>
     \<exists>q. r = production_info df' q
               (missing_audit df' (production_checks lib df' (clk 0) q new_result))"
  by (auto simp: result_add_simps validate_production_data_def Let_def split: if_splits sum.splits option.splits)

lemma price_reach:
  "validate_price_data lib df clk = (df', Inr r) \<Longrightarrow> info r \<noteq> [] \<Longrightarrow>
     \<exists>q. r = price_info df' q (missing_audit df' (price_checks df' (clk 0) q new_result))"
  by (auto simp: result_add_simps validate_price_data_def Let_def split: if_splits sum.splits option.splits)

lemma storage_reach:
  "validate_storage_data lib df = (df', Inr r) \<Longrightarrow> info r \<noteq> [] \<Longrightarrow>
     \<exists>s c. r = storage_info df' s c (utilization_column s c)
        (missing_audit df'
          (add_info (Active_Warehouses (nunique_cells (column df' ''warehouse_id'')))
            (when_positive (count_where (\<lambda>u. fgt u (Fin 95)) (utilization_column s c))
              (add_warning (Critical_High_Utilization
                 (count_where (\<lambda>u. fgt u (Fin 95)) (utilization_column s c))))
              (storage_checks s c new_result))))"
  by (auto simp: result_add_simps validate_storage_data_def Let_def split: if_splits sum.splits option.splits)

lemma when_positive_simps:
  "errors (when_positive n (add_error m) r) = errors r @ (if 0 < n then [m] else [])"
  "warnings (when_positive n (add_error m) r) = warnings r"
  "errors (when_positive n (add_warning m) r) = errors r"
  "warnings (when_positive n (add_warning m) r) = warnings r @ (if 0 < n then [m] else [])"
  by (simp_all add: result_add_simps when_positive_def)

lemma production_checks_no_missing:
  "Column_Missing_Values c p \<notin> set (errors (production_checks lib df now q new_result))"
  "Column_Missing_Values c p \<notin> set (warnings (production_checks lib df now q new_result))"
  by (simp_all add: result_add_simps when_positive_simps production_checks_def Let_def)

lemma grade_hierarchy_results:
  "errors (grade_hierarchy rows m r) = errors r"
  "Column_Missing_Values c p \<in> set (warnings (grade_hierarchy rows m r))
     \<longleftrightarrow> Column_Missing_Values c p \<in> set (warnings r)"
  by (simp_all add: result_add_simps grade_hierarchy_def Let_def)

lemma fold_grade_hierarchy_results:
  "errors (fold (grade_hierarchy rows) ms r) = errors r"
  "Column_Missing_Values c p \<in> set (warnings (fold (grade_hierarchy rows) ms r))
     \<longleftrightarrow> Column_Missing_Values c p \<in> set (warnings r)"
  by (induction ms arbitrary: r) (simp_all add: grade_hierarchy_results)

lemma price_checks_no_missing:
  "Column_Missing_Values c p \<notin> set (errors (price_checks df now q new_result))"
  "Column_Missing_Values c p \<notin> set (warnings (price_checks df now q new_result))"
  by (simp_all add: result_add_simps when_positive_simps price_checks_def Let_def fold_grade_hierarchy_results)

lemma storage_checks_no_missing:
  "Column_Missing_Values c p \<notin> set (errors (storage_checks s cap new_result))"
  "Column_Missing_Values c p \<notin> set (warnings (storage_checks s cap new_result))"
  by (simp_all add: result_add_simps when_positive_simps storage_checks_def Let_def)

lemma info_results:
  "errors (production_info df q r) = errors r" "warnings (production_info df q r) = warnings r"
  "errors (price_info df q r) = errors r" "warnings (price_info df q r) = warnings r"
  "errors (storage_info df s c u r) = errors r" "warnings (storage_info df s c u r) = warnings r"
  by (simp_all add: result_add_simps production_info_def price_info_def storage_info_def)

lemma audit_spec:
  assumes d: "distinct (map fst df)" and m: "(c, cells) \<in> set df"
    and e0: "\<forall>p. Column_Missing_Values c p \<notin> set (errors r0)"
    and w0: "\<forall>p. Column_Missing_Values c p \<notin> set (warnings r0)"
  shows "(20 < missing_pct (len_df df) cells
           \<longrightarrow> Column_Missing_Values c (missing_pct (len_df df) cells)
                 \<in> set (errors (missing_audit df r0)))
       \<and> (5 < missing_pct (len_df df) cells \<and> missing_pct (len_df df) cells \<le> 20
           \<longrightarrow> Column_Missing_Values c (missing_pct (len_df df) cells)
                 \<in> set (warnings (missing_audit df r0))
               \<and> (\<forall>p. Column_Missing_Values c p \<notin> set (errors (missing_audit df r0))))
       \<and> (missing_pct (len_df df) cells \<le> 5
           \<longrightarrow> (\<forall>p. Column_Missing_Values c p \<notin> set (errors (missing_audit df r0))
                    \<and> Column_Missing_Values c p \<notin> set (warnings (missing_audit df r0))))"
proof -
  have u: "\<And>cells'. (c, cells') \<in> set df \<Longrightarrow> cells' = cells"
    using d m by (meson eq_key_imp_eq_value)
  show ?thesis
    using m e0 w0
    by (auto simp: missing_audit_def errors_fold_audit warnings_fold_audit image_iff dest: u)
qed

text \<open>
  Claim C6, as amended. On a call of \<open>validate_production_data\<close>, \<open>validate_price_data\<close>
  or \<open>validate_storage_data\<close> that gets past the emptiness, required-column and
  date-parse checks (its result then carries the info lines) and raises nothing, for
  every column of the table as the call leaves it (the column names being distinct),
  with \<open>m\<close> the percentage of the rows whose cell in that column is missing: if
  \<open>m > 20\<close> the result has an error naming the column and reporting \<open>m\<close>; if
  \<open>5 < m \<le> 20\<close> it has a warning naming the column and reporting \<open>m\<close>, and no such
  error; if \<open>m \<le> 5\<close> it has neither.
\<close>

theorem missing_value_audit:
  assumes v: "validate_production_data lib df clk = (df', Inr r)
            \<or> validate_price_data lib df clk = (df', Inr r)
            \<or> validate_storage_data lib df = (df', Inr r)"
    and i: "info r \<noteq> []"
    and d: "distinct (map fst df')"
    and m: "(c, cells) \<in> set df'"
  shows "(20 < missing_pct (len_df df') cells
           \<longrightarrow> Column_Missing_Values c (missing_pct (len_df df') cells) \<in> set (errors r))
       \<and> (5 < missing_pct (len_df df') cells \<and> missing_pct (len_df df') cells \<le> 20
           \<longrightarrow> Column_Missing_Values c (missing_pct (len_df df') cells) \<in> set (warnings r)
               \<and> (\<forall>p. Column_Missing_Values c p \<notin> set (errors r)))
       \<and> (missing_pct (len_df df') cells \<le> 5
           \<longrightarrow> (\<forall>p. Column_Missing_Values c p \<notin> set (errors r)
                    \<and> Column_Missing_Values c p \<notin> set (warnings r)))"
proof -
  have "\<exists>r0. errors r = errors (missing_audit df' r0)
            \<and> warnings r = warnings (missing_audit df' r0)
            \<and> (\<forall>p. Column_Missing_Values c p \<notin> set (errors r0))
            \<and> (\<forall>p. Column_Missing_Values c p \<notin> set (warnings r0))"
    using v
  proof (elim disjE)
    assume "validate_production_data lib df clk = (df', Inr r)"
    from production_reach [OF this i] obtain q where
      "r = production_info df' q
             (missing_audit df' (production_checks lib df' (clk 0) q new_result))" ..
    then show ?thesis
      using production_checks_no_missing by (intro exI [of _ "production_checks lib df' (clk 0) q new_result"])
        (simp add: result_add_simps when_positive_simps info_results)
  next
    assume "validate_price_data lib df clk = (df', Inr r)"
    from price_reach [OF this i] obtain q where
      "r = price_info df' q (missing_audit df' (price_checks df' (clk 0) q new_result))" ..
    then show ?thesis
      using price_checks_no_missing by (intro exI [of _ "price_checks df' (clk 0) q new_result"])
        (simp add: result_add_simps when_positive_simps info_results)
  next
    assume "validate_storage_data lib df = (df', Inr r)"
    from storage_reach [OF this i] obtain s cap where
      "r = storage_info df' s cap (utilization_column s cap)
        (missing_audit df'
          (add_info (Active_Warehouses (nunique_cells (column df' ''warehouse_id'')))
            (when_positive (count_where (\<lambda>u. fgt u (Fin 95)) (utilization_column s cap))
              (add_warning (Critical_High_Utilization
                 (count_where (\<lambda>u. fgt u (Fin 95)) (utilization_column s cap))))
              (storage_checks s cap new_result))))" by blast
    then show ?thesis
      using storage_checks_no_missing
      by (intro exI [of _ "add_info (Active_Warehouses (nunique_cells (column df' ''warehouse_id'')))
            (when_positive (count_where (\<lambda>u. fgt u (Fin 95)) (utilization_column s cap))
              (add_warning (Critical_High_Utilization
                 (count_where (\<lambda>u. fgt u (Fin 95)) (utilization_column s cap))))
              (storage_checks s cap new_result))"])
        (simp add: result_add_simps when_positive_simps info_results)
  qed
  then obtain r0 where e: "errors r = errors (missing_audit df' r0)"
    and w: "warnings r = warnings (missing_audit df' r0)"
    and e0: "\<forall>p. Column_Missing_Values c p \<notin> set (errors r0)"
    and w0: "\<forall>p. Column_Missing_Values c p \<notin> set (warnings r0)" by blast
  from audit_spec [OF d m e0 w0] show ?thesis unfolding e w .
qed

theorem missing_value_audit_witness:
  "validate_production_data example_library production_frame_half (\<lambda>i. 1730764800000000)
     = (production_frame_half,
        Inr \<lparr> errors = [Column_Missing_Values ''quantity_tons'' 50], warnings = [],
              info = [Total_Records 2,
                      Date_Range (Stamp 1730678400000000) (Stamp 1730678400000000),
                      Regions_Count 2, Total_Production (Fin 100)] \<rparr>)
   \<and> distinct (map fst production_frame_half)
   \<and> (''quantity_tons'', [Number NaN, Number (Fin 100)]) \<in> set production_frame_half
   \<and> 20 < missing_pct (len_df production_frame_half) [Number NaN, Number (Fin 100)]
   \<and> Column_Missing_Values ''quantity_tons''
         (missing_pct (len_df production_frame_half) [Number NaN, Number (Fin 100)])
       \<in> set [Column_Missing_Values ''quantity_tons'' 50]"
proof -
  let ?r = "\<lparr> errors = [Column_Missing_Values ''quantity_tons'' 50], warnings = [],
              info = [Total_Records 2,
                      Date_Range (Stamp 1730678400000000) (Stamp 1730678400000000),
                      Regions_Count 2, Total_Production (Fin 100)] \<rparr>"
  have h1: "validate_production_data example_library production_frame_half (\<lambda>i. 1730764800000000)
              = (production_frame_half, Inr ?r)
            \<or> validate_price_data example_library production_frame_half (\<lambda>i. 1730764800000000)
              = (production_frame_half, Inr ?r)
            \<or> validate_storage_data example_library production_frame_half
              = (production_frame_half, Inr ?r)"
    by (simp add: validate_production_frame_half)
  have h2: "info ?r \<noteq> []" by simp
  have h3: "distinct (map fst production_frame_half)"
    by (simp add: production_frame_half_def)
  have h4: "(''quantity_tons'', [Number NaN, Number (Fin 100)]) \<in> set production_frame_half"
    by (simp add: production_frame_half_def)
  have h5: "20 < missing_pct (len_df production_frame_half) [Number NaN, Number (Fin 100)]"
    by (simp add: missing_pct_def len_df_def production_frame_half_def count_where_def)
  from missing_value_audit [OF h1 h2 h3 h4] h5
  have "Column_Missing_Values ''quantity_tons''
         (missing_pct (len_df production_frame_half) [Number NaN, Number (Fin 100)])
       \<in> set (errors ?r)" by blast
  with validate_production_frame_half h3 h4 h5 show ?thesis by simp
qed

text \<open>
  The claim as stated fails at its lower bound and for the forecast validator: a
  production table with exactly 5 percent of a column missing gets no warning (and no
  error), and a forecast table with half of a column missing gets no error.
\<close>

theorem missing_value_audit_counterexample:
  "missing_pct (len_df production_frame_5pct) (column production_frame_5pct ''quantity_tons'') = 5
   \<and> (\<exists>r. snd (validate_production_data example_library production_frame_5pct
                 (\<lambda>i. 1730764800000000)) = Inr r
          \<and> warnings r = [] \<and> errors r = [])
   \<and> missing_pct (len_df forecast_frame_half) (column forecast_frame_half ''yhat_lower'') = 50
   \<and> (\<exists>r. snd (validate_forecast_data forecast_frame_half ''production'') = Inr r
          \<and> errors r = [])"
  by (simp add: validate_production_frame_5pct validate_forecast_frame_half missing_pct_examples)

subsection \<open>The clock in the analytics functions\<close>









subsection \<open>Two calls in a row\<close>

































end
